theory Spec2Isabelle
  imports Complex_Main "HOL-Library.Word"
begin

section \<open>JavaScript values\<close>

text \<open>
  A JavaScript \<open>number\<close> is an IEEE double. The model keeps the three special values
  that the comparisons and divisions of the code can produce and takes every finite value
  as an exact rational: rounding, overflow of finite results and the sign of zero are not
  modelled (every zero is the positive zero, which is what the DOM hands to the code for
  \<open>naturalWidth\<close>, \<open>naturalHeight\<close> and the sides of a bounding rectangle).
\<close>

datatype jsnum = Num rat | PosInf | NegInf | NaN

text \<open>\<open>a / b\<close>\<close>

fun jdiv :: "jsnum \<Rightarrow> jsnum \<Rightarrow> jsnum" where
  "jdiv NaN _ = NaN"
| "jdiv _ NaN = NaN"
| "jdiv (Num a) (Num b) =
     (if b = 0 then (if a = 0 then NaN else if 0 < a then PosInf else NegInf)
      else Num (a / b))"
| "jdiv (Num a) PosInf = Num 0"
| "jdiv (Num a) NegInf = Num 0"
| "jdiv PosInf (Num b) = (if b < 0 then NegInf else PosInf)"
| "jdiv NegInf (Num b) = (if b < 0 then PosInf else NegInf)"
| "jdiv PosInf PosInf = NaN"
| "jdiv PosInf NegInf = NaN"
| "jdiv NegInf PosInf = NaN"
| "jdiv NegInf NegInf = NaN"

text \<open>\<open>a * b\<close>\<close>

fun jmul :: "jsnum \<Rightarrow> jsnum \<Rightarrow> jsnum" where
  "jmul NaN _ = NaN"
| "jmul _ NaN = NaN"
| "jmul (Num a) (Num b) = Num (a * b)"
| "jmul (Num a) PosInf = (if a = 0 then NaN else if 0 < a then PosInf else NegInf)"
| "jmul (Num a) NegInf = (if a = 0 then NaN else if 0 < a then NegInf else PosInf)"
| "jmul PosInf (Num b) = (if b = 0 then NaN else if 0 < b then PosInf else NegInf)"
| "jmul NegInf (Num b) = (if b = 0 then NaN else if 0 < b then NegInf else PosInf)"
| "jmul PosInf PosInf = PosInf"
| "jmul PosInf NegInf = NegInf"
| "jmul NegInf PosInf = NegInf"
| "jmul NegInf NegInf = PosInf"

text \<open>\<open>a - b\<close>\<close>

fun jsub :: "jsnum \<Rightarrow> jsnum \<Rightarrow> jsnum" where
  "jsub NaN _ = NaN"
| "jsub _ NaN = NaN"
| "jsub (Num a) (Num b) = Num (a - b)"
| "jsub (Num a) PosInf = NegInf"
| "jsub (Num a) NegInf = PosInf"
| "jsub PosInf (Num b) = PosInf"
| "jsub NegInf (Num b) = NegInf"
| "jsub PosInf PosInf = NaN"
| "jsub PosInf NegInf = PosInf"
| "jsub NegInf PosInf = NegInf"
| "jsub NegInf NegInf = NaN"

text \<open>\<open>a < b\<close> and \<open>a > b\<close>: every comparison with \<open>NaN\<close> is false.\<close>

fun jlt :: "jsnum \<Rightarrow> jsnum \<Rightarrow> bool" where
  "jlt NaN _ = False"
| "jlt _ NaN = False"
| "jlt (Num a) (Num b) = (a < b)"
| "jlt (Num a) PosInf = True"
| "jlt (Num a) NegInf = False"
| "jlt PosInf _ = False"
| "jlt NegInf (Num b) = True"
| "jlt NegInf PosInf = True"
| "jlt NegInf NegInf = False"

definition jgt :: "jsnum \<Rightarrow> jsnum \<Rightarrow> bool" where
  "jgt a b = jlt b a"

text \<open>A string used as a condition is true unless it is \<open>null\<close> or empty.\<close>

fun truthy :: "string option \<Rightarrow> bool" where
  "truthy None = False"
| "truthy (Some s) = (s \<noteq> [])"

text \<open>
  What a \<open>catch\<close> clause receives: an \<open>Error\<close> with its message, or any other value.
\<close>

datatype js_exn = Error string | NonError

text \<open>\<open>err instanceof Error ? err.message : 'An unknown error occurred.'\<close>\<close>

fun errorMessage :: "js_exn \<Rightarrow> string" where
  "errorMessage (Error m) = m"
| "errorMessage NonError = ''An unknown error occurred.''"

section \<open>Data model\<close>

text \<open>
  A \<open>File\<close> is what its attributes \<open>name\<close> and \<open>type\<close> and its content give.
\<close>

record jsfile =
  file_name :: string
  file_type :: string
  file_bytes :: "8 word list"

text \<open>
  The constructor \<open>new File(bits, name, {type})\<close> of the File API does not store the
  \<open>type\<close> option as it is: an option with a character outside U+0020 to U+007E gives the
  empty type, and every other option is stored in ASCII lower case.
\<close>

definition ascii_lower :: "char \<Rightarrow> char" where
  "ascii_lower c =
     (if 65 \<le> (of_char c :: nat) \<and> (of_char c :: nat) \<le> 90
      then char_of ((of_char c :: nat) + 32) else c)"

definition file_type_option :: "string \<Rightarrow> string" where
  "file_type_option t =
     (if list_ex (\<lambda>c. (of_char c :: nat) < 32 \<or> 126 < (of_char c :: nat)) t then []
      else map ascii_lower t)"

definition new_File :: "8 word list \<Rightarrow> string \<Rightarrow> string \<Rightarrow> jsfile" where
  "new_File bits name t =
     \<lparr>file_name = name, file_type = file_type_option t, file_bytes = bits\<rparr>"

text \<open>The strings the constructor stores unchanged: printable ASCII without capitals.\<close>

definition lower_printable :: "string \<Rightarrow> bool" where
  "lower_printable t =
     list_all (\<lambda>c. 32 \<le> (of_char c :: nat) \<and> (of_char c :: nat) \<le> 126 \<and>
                    \<not> (65 \<le> (of_char c :: nat) \<and> (of_char c :: nat) \<le> 90)) t"

text \<open>The interface \<open>Door\<close> of \<open>types.ts\<close>.\<close>

record door =
  door_id :: jsnum
  door_name :: string
  imageUrl :: string

text \<open>The array \<open>predefinedDoors\<close> of \<open>data/doors.ts\<close>.\<close>

definition predefinedDoors :: "door list" where
  "predefinedDoors =
    [\<lparr>door_id = Num 1, door_name = ''Classic Oak Panel'', imageUrl = ''/assets/door-1.jpg''\<rparr>,
     \<lparr>door_id = Num 2, door_name = ''Modern Steel Gray'', imageUrl = ''/assets/door-2.jpg''\<rparr>,
     \<lparr>door_id = Num 3, door_name = ''Rustic Barn Door'', imageUrl = ''/assets/door-3.png''\<rparr>,
     \<lparr>door_id = Num 4, door_name = ''Elegant Glass Insert'', imageUrl = ''/assets/door-4.jpg''\<rparr>,
     \<lparr>door_id = Num 5, door_name = ''Minimalist White'', imageUrl = ''/assets/door-5.jpg''\<rparr>]"

record point =
  pos_x :: jsnum
  pos_y :: jsnum

record rel_position =
  xPercent :: jsnum
  yPercent :: jsnum

text \<open>The state hooks of the component \<open>App\<close>, in the order of their declaration.\<close>

record app_state =
  selectedDoor :: "door option"
  doorImageFile :: "jsfile option"
  sceneImage :: "jsfile option"
  isLoading :: bool
  error :: "string option"
  loadingMessageIndex :: nat
  persistedOrbPosition :: "point option"
  debugImageUrl :: "string option"
  debugPrompt :: "string option"
  isDebugModalOpen :: bool
  isAddModalOpen :: bool
  isTouchDragging :: bool
  touchGhostPosition :: "point option"
  isHoveringDropZone :: bool
  touchOrbPosition :: "point option"

text \<open>The arguments of the \<open>useState\<close> calls.\<close>

definition initial_state :: app_state where
  "initial_state =
    \<lparr>selectedDoor = None, doorImageFile = None, sceneImage = None, isLoading = False,
     error = None, loadingMessageIndex = 0, persistedOrbPosition = None,
     debugImageUrl = None, debugPrompt = None, isDebugModalOpen = False,
     isAddModalOpen = False, isTouchDragging = False, touchGhostPosition = None,
     isHoveringDropZone = False, touchOrbPosition = None\<rparr>"

section \<open>Handlers without effects outside the state\<close>

definition handleReset :: "app_state \<Rightarrow> app_state" where
  "handleReset s =
     s\<lparr>selectedDoor := None, doorImageFile := None, sceneImage := None, error := None,
       isLoading := False, persistedOrbPosition := None, debugImageUrl := None,
       debugPrompt := None\<rparr>"

definition handleChangeDoor :: "app_state \<Rightarrow> app_state" where
  "handleChangeDoor s =
     s\<lparr>selectedDoor := None, doorImageFile := None, persistedOrbPosition := None,
       debugImageUrl := None, debugPrompt := None\<rparr>"

definition handleChangeScene :: "app_state \<Rightarrow> app_state" where
  "handleChangeScene s =
     s\<lparr>sceneImage := None, persistedOrbPosition := None, debugImageUrl := None,
       debugPrompt := None\<rparr>"

subsection \<open>What \<open>renderContent\<close> shows\<close>

text \<open>
  One constructor per \<open>return\<close> of \<open>renderContent\<close>, with the values the returned tree
  depends on.
\<close>

datatype view =
    ErrorView string
  | LoadingDoorView
  | DoorSelectionView "door list" bool
  | UploadSceneView door
  | MainView door jsfile

definition renderContent :: "app_state \<Rightarrow> view" where
  "renderContent s =
     (if truthy (error s) then ErrorView (the (error s))
      else if isLoading s \<and> sceneImage s = None then LoadingDoorView
      else (case selectedDoor s of
              None \<Rightarrow> DoorSelectionView predefinedDoors (isAddModalOpen s)
            | Some d \<Rightarrow>
                (case sceneImage s of
                   None \<Rightarrow> UploadSceneView d
                 | Some f \<Rightarrow> MainView d f)))"

section \<open>Strings\<close>

text \<open>
  Strings are lists of 8-bit characters: the code units of a JavaScript string, restricted
  to the range a data URL and a binary string use.
\<close>

text \<open>\<open>s.split(c)\<close> for a separator of one character: never the empty array.\<close>

fun split_on :: "char \<Rightarrow> string \<Rightarrow> string list" where
  "split_on c [] = [[]]"
| "split_on c (x # xs) =
     (if x = c then [] # split_on c xs
      else (case split_on c xs of y # ys \<Rightarrow> (x # y) # ys | [] \<Rightarrow> [[x]]))"

text \<open>\<open>s.startsWith(p)\<close>\<close>

definition startsWith :: "string \<Rightarrow> string \<Rightarrow> bool" where
  "startsWith s p = (take (length p) s = p)"

text \<open>
  The regular expression \<open>/:(.*?);/\<close> of \<open>dataURLtoFile\<close>. The dot matches every
  character but a line terminator, and the lazy star stops at the first semicolon:
  \<open>lazy_upto_semi s\<close> matches \<open>(.*?);\<close> at the start of \<open>s\<close> and returns the group.
\<close>

definition is_line_terminator :: "char \<Rightarrow> bool" where
  "is_line_terminator c = (c = CHR 0x0A \<or> c = CHR 0x0D)"

fun lazy_upto_semi :: "string \<Rightarrow> string option" where
  "lazy_upto_semi [] = None"
| "lazy_upto_semi (c # cs) =
     (if c = CHR '';'' then Some []
      else if is_line_terminator c then None
      else map_option (Cons c) (lazy_upto_semi cs))"

text \<open>
  \<open>s.match(/:(.*?);/)\<close>: the match at the leftmost colon where one exists; the result is
  the group \<open>mimeMatch[1]\<close>, and \<open>None\<close> stands for \<open>null\<close>.
\<close>

fun mime_match :: "string \<Rightarrow> string option" where
  "mime_match [] = None"
| "mime_match (c # cs) =
     (if c = CHR '':'' then
        (case lazy_upto_semi cs of Some g \<Rightarrow> Some g | None \<Rightarrow> mime_match cs)
      else mime_match cs)"

subsection \<open>\<open>atob\<close>\<close>

text \<open>
  The browser's \<open>atob\<close> is the forgiving base64 decoding of the WHATWG Infra standard:
  ASCII whitespace is removed; when the length is then a multiple of four, one or two
  closing \<open>=\<close> are removed; a length of one modulo four and a character outside the
  alphabet are failures (\<open>atob\<close> throws an \<open>InvalidCharacterError\<close>); every four characters
  give three bytes, and two or three remaining characters give one or two.
\<close>

definition is_ascii_whitespace :: "char \<Rightarrow> bool" where
  "is_ascii_whitespace c =
     (c = CHR 0x09 \<or> c = CHR 0x0A \<or> c = CHR 0x0C \<or> c = CHR 0x0D \<or> c = CHR 0x20)"

definition b64_value :: "char \<Rightarrow> nat option" where
  "b64_value c =
     (let n = (of_char c :: nat) in
      if 65 \<le> n \<and> n \<le> 90 then Some (n - 65)
      else if 97 \<le> n \<and> n \<le> 122 then Some (n - 71)
      else if 48 \<le> n \<and> n \<le> 57 then Some (n + 4)
      else if n = 43 then Some 62
      else if n = 47 then Some 63
      else None)"

definition strip_padding :: "string \<Rightarrow> string" where
  "strip_padding s =
     (if length s mod 4 = 0 then
        (if 2 \<le> length s \<and> drop (length s - 2) s = ''=='' then take (length s - 2) s
         else if 1 \<le> length s \<and> drop (length s - 1) s = ''='' then take (length s - 1) s
         else s)
      else s)"

fun b64_octets :: "nat list \<Rightarrow> nat list" where
  "b64_octets (a # b # c # d # rest) =
     (a * 4 + b div 16) # ((b mod 16) * 16 + c div 4) # ((c mod 4) * 64 + d) # b64_octets rest"
| "b64_octets [a, b, c] = [a * 4 + b div 16, (b mod 16) * 16 + c div 4]"
| "b64_octets [a, b] = [a * 4 + b div 16]"
| "b64_octets _ = []"

definition atob_error :: js_exn where
  "atob_error = Error ''The string to be decoded is not correctly encoded.''"

definition atob :: "string \<Rightarrow> js_exn + string" where
  "atob s =
     (let d = strip_padding (filter (\<lambda>c. \<not> is_ascii_whitespace c) s) in
      if length d mod 4 = 1 then Inl atob_error
      else if \<exists>c \<in> set d. b64_value c = None then Inl atob_error
      else Inr (map char_of (b64_octets (map (\<lambda>c. the (b64_value c)) d))))"

text \<open>
  The encoding that \<open>atob\<close> undoes (RFC 4648, the alphabet of \<open>btoa\<close>): three bytes give
  four characters, and one or two remaining bytes give two or three characters and the
  padding. It says what the payload of a well-formed data URL is.
\<close>

definition b64_char :: "nat \<Rightarrow> char" where
  "b64_char v =
     (if v < 26 then char_of (65 + v)
      else if v < 52 then char_of (71 + v)
      else if v < 62 then char_of (v - 4)
      else if v = 62 then CHR ''+'' else CHR ''/'')"

fun b64_sextets :: "nat list \<Rightarrow> nat list" where
  "b64_sextets (x # y # z # rest) =
     (x div 4) # ((x mod 4) * 16 + y div 16) # ((y mod 16) * 4 + z div 64) # (z mod 64) #
       b64_sextets rest"
| "b64_sextets [x, y] = [x div 4, (x mod 4) * 16 + y div 16, (y mod 16) * 4]"
| "b64_sextets [x] = [x div 4, (x mod 4) * 16]"
| "b64_sextets [] = []"

definition b64_padding :: "nat \<Rightarrow> string" where
  "b64_padding n = (if n mod 3 = 1 then ''=='' else if n mod 3 = 2 then ''='' else [])"

definition base64_encode :: "8 word list \<Rightarrow> string" where
  "base64_encode bs = map b64_char (b64_sextets (map unat bs)) @ b64_padding (length bs)"

subsection \<open>\<open>dataURLtoFile\<close>\<close>

text \<open>
  The loop \<open>while(n--){ u8arr[n] = bstr.charCodeAt(n); }\<close>: the test reads \<open>n\<close> and
  decrements it, and the body writes at the decremented index.
\<close>

fun fill_bytes :: "nat \<Rightarrow> string \<Rightarrow> 8 word list \<Rightarrow> 8 word list" where
  "fill_bytes 0 bstr u8arr = u8arr"
| "fill_bytes (Suc n) bstr u8arr = fill_bytes n bstr (u8arr[n := of_nat (of_char (bstr ! n))])"

definition dataURLtoFile :: "string \<Rightarrow> string \<Rightarrow> js_exn + jsfile" where
  "dataURLtoFile dataurl filename =
     (let arr = split_on CHR '','' dataurl in
      if length arr < 2 then Inl (Error ''Invalid data URL'')
      else
        (case mime_match (arr ! 0) of
           None \<Rightarrow> Inl (Error ''Could not parse MIME type from data URL'')
         | Some mime \<Rightarrow>
             if mime = [] then Inl (Error ''Could not parse MIME type from data URL'')
             else
               (case atob (arr ! 1) of
                  Inl e \<Rightarrow> Inl e
                | Inr bstr \<Rightarrow>
                    Inr (new_File
                           (fill_bytes (length bstr) bstr (replicate (length bstr) 0))
                           filename mime))))"

text \<open>
  The parts of a data URL in the words of its format: the header before the first comma,
  and the payload from the first comma to the next one, or to the end when there is no
  other.
\<close>

definition url_header :: "string \<Rightarrow> string" where
  "url_header s = takeWhile (\<lambda>c. c \<noteq> CHR '','') s"

definition url_payload :: "string \<Rightarrow> string" where
  "url_payload s =
     takeWhile (\<lambda>c. c \<noteq> CHR '','') (drop 1 (dropWhile (\<lambda>c. c \<noteq> CHR '','') s))"

section \<open>The world around the component\<close>

text \<open>
  The arguments of one call of \<open>generateCompositeImage\<close> and the object it resolves to.
  The service is not part of the sources: a call is recorded, and what it settles to is
  an input of the model (\<open>Inl\<close> a rejection, \<open>Inr\<close> the resolved value).
\<close>

record gen_request =
  req_doorImageFile :: jsfile
  req_doorName :: string
  req_sceneImage :: jsfile
  req_sceneName :: string
  req_relativePosition :: rel_position

record gen_result =
  finalImageUrl :: string
  res_debugImageUrl :: "string option"
  finalPrompt :: "string option"

text \<open>What \<open>fetch\<close> resolves to: the flag \<open>ok\<close> and what \<open>blob()\<close> settles to.\<close>

record blob =
  blob_type :: string
  blob_bytes :: "8 word list"

record response =
  resp_ok :: bool
  resp_blob :: "js_exn + blob"

text \<open>What \<open>sceneImgRef.current\<close> and \<open>getBoundingClientRect()\<close> give.\<close>

record img_element =
  naturalWidth :: nat
  naturalHeight :: nat

record dom_rect =
  rect_left :: jsnum
  rect_top :: jsnum
  rect_width :: jsnum
  rect_height :: jsnum

text \<open>
  The state of the component together with the traces of what it did to the outside: the
  calls of the service, the URLs fetched, the values given to \<open>console.error\<close>, the
  object URLs created (each with its file) and those revoked. The last four fields belong
  to the effects: the URL each cleanup closure holds, the dependencies of the loading
  effect at its last run, and whether its interval is set.
\<close>

record world =
  app :: app_state
  api_calls :: "gen_request list"
  fetched :: "string list"
  console :: "js_exn list"
  object_urls :: "(string \<times> jsfile) list"
  revoked :: "string list"
  scene_dep :: "string option"
  door_dep :: "string option"
  loading_dep :: "bool \<times> jsfile option"
  interval :: bool

definition initial_world :: world where
  "initial_world =
    \<lparr>app = initial_state, api_calls = [], fetched = [], console = [], object_urls = [],
     revoked = [], scene_dep = None, door_dep = None, loading_dep = (False, None),
     interval = False\<rparr>"

text \<open>
  \<open>URL.createObjectURL\<close> returns \<open>blob:\<close> followed by the origin and a fresh UUID; what
  follows the scheme is chosen by the browser and is an input here.
\<close>

definition createObjectURL :: "string \<Rightarrow> jsfile \<Rightarrow> world \<Rightarrow> string \<times> world" where
  "createObjectURL suffix f w =
     (''blob:'' @ suffix, w\<lparr>object_urls := object_urls w @ [(''blob:'' @ suffix, f)]\<rparr>)"

definition revokeObjectURL :: "string \<Rightarrow> world \<Rightarrow> world" where
  "revokeObjectURL u w = w\<lparr>revoked := revoked w @ [u]\<rparr>"

text \<open>The decimal digits of a natural number, as a template literal prints them.\<close>

fun decimal :: "nat \<Rightarrow> string" where
  "decimal n =
     (if n < 10 then [''0123456789'' ! n]
      else decimal (n div 10) @ [''0123456789'' ! (n mod 10)])"

declare decimal.simps [simp del]

section \<open>Handlers\<close>

subsection \<open>\<open>handleDoorImageUpload\<close>\<close>

text \<open>
  \<open>now\<close> is the value of \<open>Date.now()\<close>; \<open>created\<close> is what the call of
  \<open>URL.createObjectURL\<close> does: it throws, or returns the URL with the given suffix.
\<close>

definition handleDoorImageUpload :: "jsfile \<Rightarrow> nat \<Rightarrow> js_exn + string \<Rightarrow> world \<Rightarrow> world" where
  "handleDoorImageUpload f now created w =
     (let w0 = w\<lparr>app := (app w)\<lparr>error := None\<rparr>\<rparr> in
      case created of
        Inr suffix \<Rightarrow>
          (let (url, w1) = createObjectURL suffix f w0;
               d = \<lparr>door_id = Num (of_nat now), door_name = file_name f, imageUrl = url\<rparr>
           in w1\<lparr>app := (app w1)\<lparr>doorImageFile := Some f, selectedDoor := Some d,
                                   isAddModalOpen := False\<rparr>\<rparr>)
      | Inl err \<Rightarrow>
          w0\<lparr>app := (app w0)\<lparr>error :=
                  Some (''Could not load the door image. Details: '' @ errorMessage err)\<rparr>,
             console := console w0 @ [err]\<rparr>)"

subsection \<open>\<open>handleSelectPredefinedDoor\<close>\<close>

text \<open>The part before the first \<open>await\<close>: two state updates and the call of \<open>fetch\<close>.\<close>

definition handleSelectPredefinedDoor_call :: "door \<Rightarrow> world \<Rightarrow> world" where
  "handleSelectPredefinedDoor_call d w =
     w\<lparr>app := (app w)\<lparr>isLoading := True, error := None\<rparr>,
       fetched := fetched w @ [imageUrl d]\<rparr>"

text \<open>\<open>door.imageUrl.split('/').pop() || 'door.jpg'\<close> and \<open>blob.type || 'image/jpeg'\<close>\<close>

definition door_fileName :: "door \<Rightarrow> string" where
  "door_fileName d =
     (let l = last (split_on CHR ''/'' (imageUrl d)) in if l = [] then ''door.jpg'' else l)"

definition door_fileType :: "blob \<Rightarrow> string" where
  "door_fileType b = (if blob_type b = [] then ''image/jpeg'' else blob_type b)"

text \<open>The \<open>catch\<close> and \<open>finally\<close> clauses.\<close>

definition select_catch :: "js_exn \<Rightarrow> world \<Rightarrow> world" where
  "select_catch err w =
     w\<lparr>app := (app w)\<lparr>error :=
             Some (''Could not load the selected door. Details: '' @ errorMessage err)\<rparr>,
       console := console w @ [err]\<rparr>"

definition select_finally :: "world \<Rightarrow> world" where
  "select_finally w = w\<lparr>app := (app w)\<lparr>isLoading := False\<rparr>\<rparr>"

text \<open>The rest of the handler, run when \<open>fetch\<close> has settled to \<open>r\<close>.\<close>

definition handleSelectPredefinedDoor_settle :: "door \<Rightarrow> js_exn + response \<Rightarrow> world \<Rightarrow> world" where
  "handleSelectPredefinedDoor_settle d r w =
     select_finally
       (case r of
          Inl err \<Rightarrow> select_catch err w
        | Inr resp \<Rightarrow>
            if \<not> resp_ok resp then
              select_catch (Error (''Failed to load door image: '' @ door_name d)) w
            else
              (case resp_blob resp of
                 Inl err \<Rightarrow> select_catch err w
               | Inr b \<Rightarrow>
                   w\<lparr>app := (app w)\<lparr>
                        doorImageFile :=
                          Some (new_File (blob_bytes b) (door_fileName d) (door_fileType b)),
                        selectedDoor := Some d\<rparr>\<rparr>))"

text \<open>The whole handler, when nothing else runs while it waits.\<close>

definition handleSelectPredefinedDoor :: "(string \<Rightarrow> js_exn + response) \<Rightarrow> door \<Rightarrow> world \<Rightarrow> world" where
  "handleSelectPredefinedDoor fetch d w =
     handleSelectPredefinedDoor_settle d (fetch (imageUrl d))
       (handleSelectPredefinedDoor_call d w)"

subsection \<open>\<open>handleDoorDrop\<close>\<close>

text \<open>
  The guard \<open>!doorImageFile || !sceneImage || !selectedDoor\<close> and the arguments of the call
  it protects.
\<close>

definition door_drop_request :: "app_state \<Rightarrow> rel_position \<Rightarrow> gen_request option" where
  "door_drop_request s relativePosition =
     (case doorImageFile s of
        None \<Rightarrow> None
      | Some df \<Rightarrow>
          (case sceneImage s of
             None \<Rightarrow> None
           | Some sf \<Rightarrow>
               (case selectedDoor s of
                  None \<Rightarrow> None
                | Some d \<Rightarrow>
                    Some \<lparr>req_doorImageFile = df, req_doorName = door_name d,
                          req_sceneImage = sf,
                          req_sceneName = file_name sf,
                          req_relativePosition = relativePosition\<rparr>)))"

text \<open>The part up to the \<open>await\<close>: the guard, three state updates and the call.\<close>

definition handleDoorDrop_call :: "point \<Rightarrow> rel_position \<Rightarrow> world \<Rightarrow> world" where
  "handleDoorDrop_call position relativePosition w =
     (case door_drop_request (app w) relativePosition of
        None \<Rightarrow>
          w\<lparr>app := (app w)\<lparr>error := Some ''An unexpected error occurred. Please try again.''\<rparr>\<rparr>
      | Some req \<Rightarrow>
          w\<lparr>app := (app w)\<lparr>persistedOrbPosition := Some position, isLoading := True,
                              error := None\<rparr>,
            api_calls := api_calls w @ [req]\<rparr>)"

definition drop_catch :: "js_exn \<Rightarrow> world \<Rightarrow> world" where
  "drop_catch err w =
     w\<lparr>app := (app w)\<lparr>error :=
             Some (''Failed to generate the image. '' @ errorMessage err)\<rparr>,
       console := console w @ [err]\<rparr>"

definition drop_finally :: "world \<Rightarrow> world" where
  "drop_finally w = w\<lparr>app := (app w)\<lparr>isLoading := False, persistedOrbPosition := None\<rparr>\<rparr>"

text \<open>
  The rest of the handler, run when the call has settled to \<open>r\<close>; \<open>now\<close> is the value of
  \<open>Date.now()\<close> in the name of the new file.
\<close>

definition generated_scene_name :: "nat \<Rightarrow> string" where
  "generated_scene_name now = ''generated-scene-'' @ decimal now @ ''.jpeg''"

definition handleDoorDrop_settle :: "nat \<Rightarrow> js_exn + gen_result \<Rightarrow> world \<Rightarrow> world" where
  "handleDoorDrop_settle now r w =
     drop_finally
       (case r of
          Inl err \<Rightarrow> drop_catch err w
        | Inr res \<Rightarrow>
            (let w1 = w\<lparr>app := (app w)\<lparr>debugImageUrl := res_debugImageUrl res,
                                          debugPrompt := finalPrompt res\<rparr>\<rparr>
             in case dataURLtoFile (finalImageUrl res) (generated_scene_name now) of
                  Inl err \<Rightarrow> drop_catch err w1
                | Inr newSceneFile \<Rightarrow>
                    w1\<lparr>app := (app w1)\<lparr>sceneImage := Some newSceneFile\<rparr>\<rparr>))"

text \<open>
  The whole handler, when nothing else runs while it waits: \<open>generate\<close> is the service, and
  the handler returns at the guard without waiting.
\<close>

definition handleDoorDrop ::
    "(gen_request \<Rightarrow> js_exn + gen_result) \<Rightarrow> nat \<Rightarrow> point \<Rightarrow> rel_position \<Rightarrow> world \<Rightarrow> world" where
  "handleDoorDrop generate now position relativePosition w =
     (case door_drop_request (app w) relativePosition of
        None \<Rightarrow> handleDoorDrop_call position relativePosition w
      | Some req \<Rightarrow>
          handleDoorDrop_settle now (generate req)
            (handleDoorDrop_call position relativePosition w))"

subsection \<open>Touch drag and drop\<close>

text \<open>
  A touch point is \<open>clientX\<close> and \<open>clientY\<close>. The drop zone is what
  \<open>document.elementFromPoint(...)?.closest(...)\<close> finds, given by its bounding rectangle,
  or \<open>None\<close> when there is none under the touch point.
\<close>

definition handleTouchStart :: "point \<Rightarrow> world \<Rightarrow> world" where
  "handleTouchStart touch w =
     (if selectedDoor (app w) = None then w
      else w\<lparr>app := (app w)\<lparr>isTouchDragging := True,
                                touchGhostPosition :=
                                  Some \<lparr>pos_x = pos_x touch, pos_y = pos_y touch\<rparr>\<rparr>\<rparr>)"

definition handleTouchMove :: "point \<Rightarrow> dom_rect option \<Rightarrow> world \<Rightarrow> world" where
  "handleTouchMove touch dropZone w =
     (if \<not> isTouchDragging (app w) then w
      else
        (let s = (app w)\<lparr>touchGhostPosition :=
                            Some \<lparr>pos_x = pos_x touch, pos_y = pos_y touch\<rparr>\<rparr>
         in case dropZone of
              Some rect \<Rightarrow>
                w\<lparr>app := s\<lparr>touchOrbPosition :=
                               Some \<lparr>pos_x = jsub (pos_x touch) (rect_left rect),
                                     pos_y = jsub (pos_y touch) (rect_top rect)\<rparr>,
                             isHoveringDropZone := True\<rparr>\<rparr>
            | None \<Rightarrow>
                w\<lparr>app := s\<lparr>isHoveringDropZone := False, touchOrbPosition := None\<rparr>\<rparr>))"

text \<open>
  The box of the image inside the drop zone, as \<open>handleTouchEnd\<close> computes it:
  \<open>(renderedWidth, renderedHeight, offsetX, offsetY)\<close>.
\<close>

definition rendered_box :: "dom_rect \<Rightarrow> img_element \<Rightarrow> jsnum \<times> jsnum \<times> jsnum \<times> jsnum" where
  "rendered_box containerRect img =
     (let containerWidth = rect_width containerRect;
          containerHeight = rect_height containerRect;
          imageAspectRatio =
            jdiv (Num (of_nat (naturalWidth img))) (Num (of_nat (naturalHeight img)));
          containerAspectRatio = jdiv containerWidth containerHeight;
          (renderedWidth, renderedHeight) =
            (if jgt imageAspectRatio containerAspectRatio
             then (containerWidth, jdiv containerWidth imageAspectRatio)
             else (jmul containerHeight imageAspectRatio, containerHeight));
          offsetX = jdiv (jsub containerWidth renderedWidth) (Num 2);
          offsetY = jdiv (jsub containerHeight renderedHeight) (Num 2)
      in (renderedWidth, renderedHeight, offsetX, offsetY))"

text \<open>
  The arguments \<open>handleTouchEnd\<close> gives to \<open>handleDoorDrop\<close>, or \<open>None\<close> when the test on
  \<open>imageX\<close> and \<open>imageY\<close> keeps it from calling.
\<close>

definition touch_drop :: "point \<Rightarrow> dom_rect \<Rightarrow> img_element \<Rightarrow> (point \<times> rel_position) option" where
  "touch_drop touch containerRect img =
     (let (renderedWidth, renderedHeight, offsetX, offsetY) = rendered_box containerRect img;
          dropX = jsub (pos_x touch) (rect_left containerRect);
          dropY = jsub (pos_y touch) (rect_top containerRect);
          imageX = jsub dropX offsetX;
          imageY = jsub dropY offsetY
      in if \<not> (jlt imageX (Num 0) \<or> jgt imageX renderedWidth \<or>
                jlt imageY (Num 0) \<or> jgt imageY renderedHeight)
         then Some (\<lparr>pos_x = dropX, pos_y = dropY\<rparr>,
                    \<lparr>xPercent = jmul (jdiv imageX renderedWidth) (Num 100),
                     yPercent = jmul (jdiv imageY renderedHeight) (Num 100)\<rparr>)
         else None)"

text \<open>
  \<open>handleTouchEnd\<close>: \<open>touch\<close> is \<open>e.changedTouches[0]\<close> and \<open>img\<close> is \<open>sceneImgRef.current\<close>.
  The call of \<open>handleDoorDrop\<close> is not awaited, so the part of it that runs inside this
  handler is \<open>handleDoorDrop_call\<close>.
\<close>

definition handleTouchEnd ::
    "point \<Rightarrow> dom_rect option \<Rightarrow> img_element option \<Rightarrow> world \<Rightarrow> world" where
  "handleTouchEnd touch dropZone img w =
     (if \<not> isTouchDragging (app w) then w
      else
        (let w1 =
               (case dropZone of
                  None \<Rightarrow> w
                | Some containerRect \<Rightarrow>
                    (case img of
                       None \<Rightarrow> w
                     | Some i \<Rightarrow>
                         (case touch_drop touch containerRect i of
                            None \<Rightarrow> w
                          | Some (position, relativePosition) \<Rightarrow>
                              handleDoorDrop_call position relativePosition w)))
         in w1\<lparr>app := (app w1)\<lparr>isTouchDragging := False, touchGhostPosition := None,
                                  isHoveringDropZone := False, touchOrbPosition := None\<rparr>\<rparr>))"

section \<open>Effects\<close>

text \<open>The cleanup functions of the two effects that release object URLs.\<close>

definition scene_url_cleanup :: "string option \<Rightarrow> world \<Rightarrow> world" where
  "scene_url_cleanup sceneImageUrl w =
     (if truthy sceneImageUrl then revokeObjectURL (the sceneImageUrl) w else w)"

definition door_url_cleanup :: "string option \<Rightarrow> world \<Rightarrow> world" where
  "door_url_cleanup doorImageUrl w =
     (if truthy doorImageUrl \<and> startsWith (the doorImageUrl) ''blob:''
      then revokeObjectURL (the doorImageUrl) w else w)"

text \<open>The loading messages and the effect that cycles through them.\<close>

definition loadingMessages :: "string list" where
  "loadingMessages =
    [''Analyzing your door...'',
     ''Surveying your space...'',
     ''Describing placement location with AI...'',
     ''Crafting the perfect composition prompt...'',
     ''Generating photorealistic options...'',
     ''Assembling the final scene...'']"

definition loading_effect :: "world \<Rightarrow> world" where
  "loading_effect w =
     (if isLoading (app w) \<and> sceneImage (app w) \<noteq> None
      then w\<lparr>app := (app w)\<lparr>loadingMessageIndex := 0\<rparr>, interval := True\<rparr>
      else w)"

definition loading_effect_cleanup :: "world \<Rightarrow> world" where
  "loading_effect_cleanup w = w\<lparr>interval := False\<rparr>"

text \<open>The callback of \<open>setInterval\<close>, which runs only while the interval is set.\<close>

definition tick :: "world \<Rightarrow> world" where
  "tick w =
     (if interval w
      then w\<lparr>app := (app w)\<lparr>loadingMessageIndex :=
                     (loadingMessageIndex (app w) + 1) mod length loadingMessages\<rparr>\<rparr>
      else w)"


text \<open>
  What React does with an effect at a commit: when its dependencies differ from those of
  its last run, the cleanup of the last run is called, with the values its closure holds,
  and the effect runs again.
\<close>

definition use_scene_effect :: "string option \<Rightarrow> world \<Rightarrow> world" where
  "use_scene_effect sceneImageUrl w =
     (if scene_dep w \<noteq> sceneImageUrl
      then (scene_url_cleanup (scene_dep w) w)\<lparr>scene_dep := sceneImageUrl\<rparr>
      else w)"

definition use_door_effect :: "string option \<Rightarrow> world \<Rightarrow> world" where
  "use_door_effect doorImageUrl w =
     (if door_dep w \<noteq> doorImageUrl
      then (door_url_cleanup (door_dep w) w)\<lparr>door_dep := doorImageUrl\<rparr>
      else w)"

definition use_loading_effect :: "world \<Rightarrow> world" where
  "use_loading_effect w =
     (let deps = (isLoading (app w), sceneImage (app w))
      in if loading_dep w \<noteq> deps
         then (loading_effect (loading_effect_cleanup w))\<lparr>loading_dep := deps\<rparr>
         else w)"

text \<open>
  The body of \<open>App\<close>, as far as the world sees it: it computes \<open>sceneImageUrl\<close>, a new
  object URL at every call with a scene image, and \<open>doorImageUrl\<close>. The hooks it calls
  only read the state and register the effects.
\<close>

definition render_body :: "string \<Rightarrow> world \<Rightarrow> (string option \<times> string option) \<times> world" where
  "render_body suffix w =
     (let (sceneImageUrl, w1) =
            (case sceneImage (app w) of
               None \<Rightarrow> (None, w)
             | Some f \<Rightarrow> (let (u, w') = createObjectURL suffix f w in (Some u, w')));
          doorImageUrl = map_option imageUrl (selectedDoor (app w))
      in ((sceneImageUrl, doorImageUrl), w1))"

text \<open>
  The commit of a render: the three effects are committed with the URLs that the body
  computed. The effect that registers the touch listeners changes nothing of the world:
  the listeners test \<open>isTouchDragging\<close> themselves.
\<close>

definition commit :: "string option \<times> string option \<Rightarrow> world \<Rightarrow> world" where
  "commit urls w =
     (let (sceneImageUrl, doorImageUrl) = urls
      in use_loading_effect (use_door_effect doorImageUrl (use_scene_effect sceneImageUrl w)))"

text \<open>One render of \<open>App\<close> that React commits.\<close>

definition render :: "string \<Rightarrow> world \<Rightarrow> world" where
  "render suffix w = (let (urls, w1) = render_body suffix w in commit urls w1)"

text \<open>
  One render of \<open>App\<close> that React does not commit: the body runs, its result is thrown
  away and no effect runs. React does this when an update turns out to change nothing,
  when a render is interrupted, and for every render in development under \<open>StrictMode\<close>.
\<close>

definition render_discarded :: "string \<Rightarrow> world \<Rightarrow> world" where
  "render_discarded suffix w = snd (render_body suffix w)"

text \<open>Unmounting runs the cleanup of every effect.\<close>

definition unmount :: "world \<Rightarrow> world" where
  "unmount w =
     loading_effect_cleanup (door_url_cleanup (door_dep w) (scene_url_cleanup (scene_dep w) w))"

section \<open>Runs of the application\<close>

text \<open>
  What can happen to the mounted component: a handler is called, a pending call settles,
  the timer fires, or React renders, with a commit or without one. A card of the selector calls
  \<open>handleSelectPredefinedDoor\<close> with its own door, one of \<open>predefinedDoors\<close>, so the event
  names the card by its index. The events may come in any order: this allows every order
  the browser can produce, and more.
\<close>

datatype event =
    DoorImageUpload jsfile nat "js_exn + string"
  | SelectDoorCard nat
  | SelectDoorSettled nat "js_exn + response"
  | DoorDrop point rel_position
  | DoorDropSettled nat "js_exn + gen_result"
  | SceneFileSelect jsfile
  | Reset
  | ChangeDoor
  | ChangeScene
  | SetAddModalOpen bool
  | SetDebugModalOpen bool
  | TouchStart point
  | TouchMove point "dom_rect option"
  | TouchEnd point "dom_rect option" "img_element option"
  | Tick
  | Render string
  | RenderDiscarded string

fun step :: "event \<Rightarrow> world \<Rightarrow> world" where
  "step (DoorImageUpload f now created) w = handleDoorImageUpload f now created w"
| "step (SelectDoorCard i) w =
     (if i < length predefinedDoors
      then handleSelectPredefinedDoor_call (predefinedDoors ! i) w else w)"
| "step (SelectDoorSettled i r) w =
     (if i < length predefinedDoors
      then handleSelectPredefinedDoor_settle (predefinedDoors ! i) r w else w)"
| "step (DoorDrop position relativePosition) w = handleDoorDrop_call position relativePosition w"
| "step (DoorDropSettled now r) w = handleDoorDrop_settle now r w"
| "step (SceneFileSelect f) w = w\<lparr>app := (app w)\<lparr>sceneImage := Some f\<rparr>\<rparr>"
| "step Reset w = w\<lparr>app := handleReset (app w)\<rparr>"
| "step ChangeDoor w = w\<lparr>app := handleChangeDoor (app w)\<rparr>"
| "step ChangeScene w = w\<lparr>app := handleChangeScene (app w)\<rparr>"
| "step (SetAddModalOpen b) w = w\<lparr>app := (app w)\<lparr>isAddModalOpen := b\<rparr>\<rparr>"
| "step (SetDebugModalOpen b) w = w\<lparr>app := (app w)\<lparr>isDebugModalOpen := b\<rparr>\<rparr>"
| "step (TouchStart touch) w = handleTouchStart touch w"
| "step (TouchMove touch dropZone) w = handleTouchMove touch dropZone w"
| "step (TouchEnd touch dropZone img) w = handleTouchEnd touch dropZone img w"
| "step Tick w = tick w"
| "step (Render suffix) w = render suffix w"
| "step (RenderDiscarded suffix) w = render_discarded suffix w"

fun run :: "event list \<Rightarrow> world \<Rightarrow> world" where
  "run [] w = w"
| "run (e # es) w = run es (step e w)"

section \<open>Invariants of a run\<close>

text \<open>
  The selected door is one of the predefined doors, or its URL is an object URL that
  \<open>URL.createObjectURL\<close> returned for the file in \<open>doorImageFile\<close>.
\<close>

definition door_known :: "world \<Rightarrow> bool" where
  "door_known w =
     (case selectedDoor (app w) of
        None \<Rightarrow> True
      | Some d \<Rightarrow>
          d \<in> set predefinedDoors \<or>
          (startsWith (imageUrl d) ''blob:'' \<and>
           (case doorImageFile (app w) of
              None \<Rightarrow> False
            | Some f \<Rightarrow> (imageUrl d, f) \<in> set (object_urls w))))"

text \<open>
  Every URL that was revoked, and the URL the cleanup of the scene effect holds, is an
  object URL.
\<close>

definition only_blobs_revoked :: "world \<Rightarrow> bool" where
  "only_blobs_revoked w =
     (list_all (\<lambda>u. startsWith u ''blob:'') (revoked w) \<and>
      (case scene_dep w of None \<Rightarrow> True | Some u \<Rightarrow> startsWith u ''blob:''))"

section \<open>Sample values\<close>

text \<open>Concrete inputs on which the theorems below are instantiated.\<close>

definition door_photo :: jsfile where
  "door_photo = \<lparr>file_name = ''my-door.png'', file_type = ''image/png'', file_bytes = [137, 80, 78, 71]\<rparr>"

definition room_photo :: jsfile where
  "room_photo = \<lparr>file_name = ''room.jpg'', file_type = ''image/jpeg'', file_bytes = [255, 216, 255]\<rparr>"

definition uploaded_door :: door where
  "uploaded_door =
     \<lparr>door_id = Num 1700000000000, door_name = ''my-door.png'',
      imageUrl = ''blob:http://localhost:5173/1b9d6bcd''\<rparr>"

text \<open>A door and a room are chosen and a touch drag is under way.\<close>

definition dragging_world :: world where
  "dragging_world =
     initial_world\<lparr>app := initial_state\<lparr>selectedDoor := Some uploaded_door,
                                           doorImageFile := Some door_photo,
                                           sceneImage := Some room_photo,
                                           isTouchDragging := True,
                                           touchGhostPosition :=
                                             Some \<lparr>pos_x = Num 40, pos_y = Num 90\<rparr>\<rparr>\<rparr>"

definition drop_zone_rect :: dom_rect where
  "drop_zone_rect =
     \<lparr>rect_left = Num 10, rect_top = Num 20, rect_width = Num 400, rect_height = Num 300\<rparr>"

definition touch_centre :: point where
  "touch_centre = \<lparr>pos_x = Num 210, pos_y = Num 170\<rparr>"

definition sample_pos :: point where
  "sample_pos = \<lparr>pos_x = Num 200, pos_y = Num 150\<rparr>"

definition sample_rel :: rel_position where
  "sample_rel = \<lparr>xPercent = Num 50, yPercent = Num 50\<rparr>"

definition loaded_img :: img_element where
  "loaded_img = \<lparr>naturalWidth = 800, naturalHeight = 400\<rparr>"

text \<open>An image that is not decoded (yet): both natural sizes are zero.\<close>

definition unloaded_img :: img_element where
  "unloaded_img = \<lparr>naturalWidth = 0, naturalHeight = 0\<rparr>"

text \<open>The data URL of the transparent image in \<open>App.tsx\<close>, and a URL that is not a data URL.\<close>

definition gif_data_url :: string where
  "gif_data_url =
     ''data:image/gif;base64,R0lGODlhAQABAIAAAAAAAP///yH5BAEAAAAALAAAAAABAAEAAAIBRAA7''"

definition gif_bytes :: "8 word list" where
  "gif_bytes =
     [71, 73, 70, 56, 57, 97, 1, 0, 1, 0, 128, 0, 0, 0, 0, 0, 255, 255, 255, 33, 249, 4, 1, 0,
      0, 0, 0, 44, 0, 0, 0, 0, 1, 0, 1, 0, 0, 2, 1, 68, 0, 59]"

definition first_door :: door where
  "first_door = predefinedDoors ! 0"

definition second_door :: door where
  "second_door = predefinedDoors ! 1"

text \<open>A server that has the first door's image and answers 404 for everything else.\<close>

definition door_1_blob :: blob where
  "door_1_blob = \<lparr>blob_type = ''image/jpeg'', blob_bytes = [255, 216, 255, 224]\<rparr>"

definition asset_server :: "string \<Rightarrow> js_exn + response" where
  "asset_server url =
     (if url = ''/assets/door-1.jpg'' then Inr \<lparr>resp_ok = True, resp_blob = Inr door_1_blob\<rparr>
      else Inr \<lparr>resp_ok = False,
                resp_blob = Inr \<lparr>blob_type = ''text/html'', blob_bytes = []\<rparr>\<rparr>)"

text \<open>A data URL of three bytes, and one whose payload was cut off after five characters.\<close>

definition text_data_url :: string where
  "text_data_url = ''data:text/plain;base64,Zm9v''"

definition capital_data_url :: string where
  "capital_data_url = ''data:Image/PNG;base64,Zm9v''"

definition tab_data_url :: string where
  "tab_data_url = ''data:image/'' @ [char_of (9 :: nat)] @ ''png;base64,Zm9v''"

definition truncated_data_url :: string where
  "truncated_data_url = ''data:image/png;base64,Zm9vY''"

text \<open>
  A run: a door is uploaded, a room is chosen, the door is dropped, and the timer fires
  seven times while the service works.
\<close>

definition ready_run :: "event list" where
  "ready_run =
     [DoorImageUpload door_photo 1700000000000 (Inr ''http://localhost:5173/1b9d6bcd''),
      Render ''http://localhost:5173/0001'',
      SceneFileSelect room_photo,
      Render ''http://localhost:5173/0002'']"





text \<open>
  After \<open>ready_run\<close> React renders three times more, and does not commit the second of
  these renders.
\<close>

definition leak_run :: "event list" where
  "leak_run =
     ready_run @
     [Render ''http://localhost:5173/0003'',
      RenderDiscarded ''http://localhost:5173/0004'',
      Render ''http://localhost:5173/0005'']"

definition upload_run :: "event list" where
  "upload_run =
     [DoorImageUpload door_photo 1700000000000 (Inr ''http://localhost:5173/1b9d6bcd'')]"

definition select_run :: "event list" where
  "select_run = [SelectDoorCard 0, SelectDoorSettled 0 (asset_server ''/assets/door-1.jpg'')]"

text \<open>After \<open>ready_run\<close> the user asks for another door; the next render has no door URL.\<close>

definition change_run :: "event list" where
  "change_run = ready_run @ [ChangeDoor]"

text \<open>The first predefined door is selected and shown.\<close>

definition shown_run :: "event list" where
  "shown_run = select_run @ [Render ''http://localhost:5173/0001'']"

definition service_returns :: "string \<Rightarrow> gen_request \<Rightarrow> js_exn + gen_result" where
  "service_returns url req =
     Inr \<lparr>finalImageUrl = url, res_debugImageUrl = None, finalPrompt = Some ''prompt''\<rparr>"

section \<open>Theorems\<close>

subsection \<open>Data URLs\<close>

lemma split_on_unfold:
  "split_on c s =
     takeWhile (\<lambda>x. x \<noteq> c) s #
       (case dropWhile (\<lambda>x. x \<noteq> c) s of [] \<Rightarrow> [] | _ # rest \<Rightarrow> split_on c rest)"
  by (induction s) (auto split: list.splits)

lemma split_on_not_Nil [simp]: "split_on c s \<noteq> []"
  by (subst split_on_unfold) simp

lemma split_on_short_iff: "length (split_on c s) < 2 \<longleftrightarrow> c \<notin> set s"
proof
  assume "length (split_on c s) < 2"
  then show "c \<notin> set s"
    by (subst (asm) split_on_unfold) (auto split: list.splits)
next
  assume "c \<notin> set s"
  then have d: "dropWhile (\<lambda>x. x \<noteq> c) s = []" by auto
  have "split_on c s = [takeWhile (\<lambda>x. x \<noteq> c) s]"
    by (subst split_on_unfold) (simp only: d list.case)
  then show "length (split_on c s) < 2" by simp
qed

lemma split_on_0: "split_on c s ! 0 = takeWhile (\<lambda>x. x \<noteq> c) s"
  by (subst split_on_unfold) simp

lemma split_on_1:
  assumes "c \<in> set s"
  shows "split_on c s ! Suc 0 =
           takeWhile (\<lambda>x. x \<noteq> c) (drop (Suc 0) (dropWhile (\<lambda>x. x \<noteq> c) s))"
proof -
  obtain x rest where d: "dropWhile (\<lambda>x. x \<noteq> c) s = x # rest"
    using assms by (cases "dropWhile (\<lambda>x. x \<noteq> c) s") auto
  have "split_on c s ! Suc 0 = split_on c rest ! 0"
    by (subst split_on_unfold) (simp add: d)
  then show ?thesis by (simp add: split_on_0 d)
qed

lemma fill_bytes_map:
  "n \<le> length bstr \<Longrightarrow> n \<le> length u8arr \<Longrightarrow>
   fill_bytes n bstr u8arr = map (\<lambda>c. of_nat (of_char c)) (take n bstr) @ drop n u8arr"
proof (induction n arbitrary: u8arr)
  case 0
  then show ?case by simp
next
  case (Suc n)
  then have "fill_bytes (Suc n) bstr u8arr =
      map (\<lambda>c. of_nat (of_char c)) (take n bstr) @
        drop n (u8arr[n := of_nat (of_char (bstr ! n))])"
    by simp
  also have "drop n (u8arr[n := of_nat (of_char (bstr ! n))]) =
      of_nat (of_char (bstr ! n)) # drop (Suc n) u8arr"
    using Suc.prems by (simp add: Cons_nth_drop_Suc [symmetric] upd_conv_take_nth_drop)
  finally show ?case
    using Suc.prems by (simp add: take_Suc_conv_app_nth)
qed

lemma fill_bytes_all:
  "fill_bytes (length bstr) bstr (replicate (length bstr) 0) = map (\<lambda>c. of_nat (of_char c)) bstr"
  by (simp add: fill_bytes_map)


lemma dataURLtoFile_no_comma:
  "CHR '','' \<notin> set s \<Longrightarrow> dataURLtoFile s fn = Inl (Error ''Invalid data URL'')"
  using split_on_short_iff [of "CHR '',''" s] by (simp add: dataURLtoFile_def Let_def)

lemma dataURLtoFile_comma:
  assumes "CHR '','' \<in> set s"
  shows "dataURLtoFile s fn =
     (case mime_match (url_header s) of
        None \<Rightarrow> Inl (Error ''Could not parse MIME type from data URL'')
      | Some mime \<Rightarrow>
          if mime = [] then Inl (Error ''Could not parse MIME type from data URL'')
          else
            (case atob (url_payload s) of
               Inl e \<Rightarrow> Inl e
             | Inr bstr \<Rightarrow>
                 Inr \<lparr>file_name = fn, file_type = file_type_option mime,
                      file_bytes = map (\<lambda>c. of_nat (of_char c)) bstr\<rparr>))"
proof -
  have "\<not> length (split_on CHR '','' s) < 2"
    using assms split_on_short_iff [of "CHR '',''" s] by simp
  then show ?thesis
    by (simp add: dataURLtoFile_def Let_def split_on_0 split_on_1 [OF assms] new_File_def
          url_header_def url_payload_def fill_bytes_all split: option.split sum.split)
qed

text \<open>What the constructor does to a type in lower case, and to a line terminator.\<close>

lemma file_type_option_plain: "lower_printable t \<Longrightarrow> file_type_option t = t"
proof -
  assume a: "lower_printable t"
  then have "\<not> list_ex (\<lambda>c. (of_char c :: nat) < 32 \<or> 126 < (of_char c :: nat)) t"
    by (auto simp add: lower_printable_def list_all_iff list_ex_iff)
  moreover have "map ascii_lower t = t"
  proof (rule map_idI)
    fix c assume "c \<in> set t"
    then show "ascii_lower c = c"
      using a by (auto simp add: lower_printable_def list_all_iff ascii_lower_def)
  qed
  ultimately show ?thesis by (simp add: file_type_option_def)
qed

lemma lower_printable_no_terminator:
  "lower_printable t \<Longrightarrow> \<forall>c \<in> set t. \<not> is_line_terminator c"
  by (auto simp add: lower_printable_def list_all_iff is_line_terminator_def)

text \<open>
  On the header of a data URL, \<open>data:\<close> followed by a MIME type and a semicolon, the
  regular expression finds the MIME type.
\<close>

lemma lazy_upto_semi_prefix:
  "CHR '';'' \<notin> set m \<Longrightarrow> \<forall>c \<in> set m. \<not> is_line_terminator c \<Longrightarrow>
   lazy_upto_semi (m @ CHR '';'' # rest) = Some m"
  by (induction m) auto

lemma mime_match_data_header:
  "CHR '';'' \<notin> set m \<Longrightarrow> \<forall>c \<in> set m. \<not> is_line_terminator c \<Longrightarrow>
   mime_match (''data:'' @ m @ CHR '';'' # rest) = Some m"
  by (simp add: lazy_upto_semi_prefix)

text \<open>
  \<open>atob\<close> on short inputs: with and without padding, with white space, and the three
  failures (a lone padding character, one character too many, a character outside the
  alphabet).
\<close>

lemma atob_examples:
  "atob ''Zg=='' = Inr ''f''" "atob ''Zm8='' = Inr ''fo''" "atob ''Zm9v'' = Inr ''foo''"
  "atob ''Zg'' = Inr ''f''" "atob '' Zm 9v '' = Inr ''foo''"
  "atob ''Zg='' = Inl atob_error" "atob ''Zm9vY'' = Inl atob_error"
  "atob ''Zm9v!'' = Inl atob_error"
  by code_simp+

text \<open>\<open>atob\<close> decodes what the encoding produces, for every list of bytes.\<close>

lemma b64_char_code:
  "v < 64 \<Longrightarrow> of_char (b64_char v) =
     (if v < 26 then 65 + v else if v < 52 then 71 + v else if v < 62 then v - 4
      else if v = 62 then 43 else (47::nat))"
  by (simp add: b64_char_def)

lemma b64_value_char: "v < 64 \<Longrightarrow> b64_value (b64_char v) = Some v"
  unfolding b64_value_def Let_def by (simp only: b64_char_code) (simp, arith)

lemma b64_char_neq:
  assumes "v < 64" and "of_char c = (k::nat)" and "k < 43 \<or> k = 44 \<or> k = 61"
  shows "b64_char v \<noteq> c"
proof
  assume "b64_char v = c"
  then have "of_char (b64_char v) = k" using assms(2) by simp
  then show False
    using assms(1,3) by (simp only: b64_char_code split: if_splits) arith+
qed

lemma b64_char_plain:
  assumes "v < 64"
  shows "\<not> is_ascii_whitespace (b64_char v)" and "b64_char v \<noteq> CHR ''=''"
    and "b64_char v \<noteq> CHR '',''"
proof -
  have 1: "b64_char v \<noteq> CHR 0x09" by (rule b64_char_neq [OF assms, where k = 9]) simp_all
  have 2: "b64_char v \<noteq> CHR 0x0A" by (rule b64_char_neq [OF assms, where k = 10]) simp_all
  have 3: "b64_char v \<noteq> CHR 0x0C" by (rule b64_char_neq [OF assms, where k = 12]) simp_all
  have 4: "b64_char v \<noteq> CHR 0x0D" by (rule b64_char_neq [OF assms, where k = 13]) simp_all
  have 5: "b64_char v \<noteq> CHR 0x20" by (rule b64_char_neq [OF assms, where k = 32]) simp_all
  show "\<not> is_ascii_whitespace (b64_char v)"
    using 1 2 3 4 5 by (simp add: is_ascii_whitespace_def)
  show "b64_char v \<noteq> CHR ''=''" by (rule b64_char_neq [OF assms, where k = 61]) simp_all
  show "b64_char v \<noteq> CHR '',''" by (rule b64_char_neq [OF assms, where k = 44]) simp_all
qed

lemma sextet_bounds:
  fixes x y z :: nat
  assumes "x < 256" and "y < 256" and "z < 256"
  shows "x div 4 < 64" and "(x mod 4) * 16 + y div 16 < 64"
    and "(y mod 16) * 4 + z div 64 < 64" and "z mod 64 < 64"
    and "(y mod 16) * 4 < 64" and "(x mod 4) * 16 < 64"
proof -
  have a: "x mod 4 < 4" "y mod 16 < 16" "y div 16 < 16" "z div 64 < 4"
    using assms by simp_all
  show "x div 4 < 64" using assms by simp
  show "(x mod 4) * 16 + y div 16 < 64" using a by linarith
  show "(y mod 16) * 4 + z div 64 < 64" using a by linarith
  show "z mod 64 < 64" by simp
  show "(y mod 16) * 4 < 64" using a by linarith
  show "(x mod 4) * 16 < 64" using a by linarith
qed

lemma octet_1:
  fixes x y :: nat
  assumes "y < 256"
  shows "(x div 4) * 4 + ((x mod 4) * 16 + y div 16) div 16 = x"
proof -
  have "y div 16 < 16" using assms by simp
  then have "((x mod 4) * 16 + y div 16) div 16 = x mod 4" by simp
  then show ?thesis by simp
qed

lemma octet_2:
  fixes x y z :: nat
  assumes "y < 256" and "z < 256"
  shows "(((x mod 4) * 16 + y div 16) mod 16) * 16 + ((y mod 16) * 4 + z div 64) div 4 = y"
proof -
  have a: "y div 16 < 16" using assms by simp
  have b: "z div 64 < 4" using assms by simp
  have "((x mod 4) * 16 + y div 16) mod 16 = y div 16" using a by simp
  moreover have "((y mod 16) * 4 + z div 64) div 4 = y mod 16" using b by simp
  ultimately show ?thesis by simp
qed

lemma octet_3:
  fixes y z :: nat
  assumes "z < 256"
  shows "(((y mod 16) * 4 + z div 64) mod 4) * 64 + z mod 64 = z"
proof -
  have b: "z div 64 < 4" using assms by simp
  have "((y mod 16) * 4 + z div 64) mod 4 = z div 64" using b by simp
  then show ?thesis by simp
qed

lemma b64_sextets_bound:
  "\<forall>x \<in> set xs. x < 256 \<Longrightarrow> \<forall>v \<in> set (b64_sextets xs). v < 64"
proof (induction xs rule: b64_sextets.induct)
  case (1 x y z rest)
  then have "x < 256" "y < 256" "z < 256" by simp_all
  then show ?case using 1 sextet_bounds [of x y z] by simp
next
  case (2 x y)
  then have "x < 256" "y < 256" by simp_all
  then show ?case using sextet_bounds [of x y 0] by simp
next
  case (3 x)
  then have "x < 256" by simp
  then show ?case using sextet_bounds [of x 0 0] by simp
next
  case 4
  then show ?case by simp
qed

lemma b64_octets_sextets:
  "\<forall>x \<in> set xs. x < 256 \<Longrightarrow> b64_octets (b64_sextets xs) = xs"
proof (induction xs rule: b64_sextets.induct)
  case (1 x y z rest)
  then have b: "x < 256" "y < 256" "z < 256" by simp_all
  show ?case using 1 octet_1 [OF b(2), of x] octet_2 [OF b(2,3), of x] octet_3 [OF b(3), of y]
    by simp
next
  case (2 x y)
  then have b: "x < 256" "y < 256" by simp_all
  have "(((x mod 4) * 16 + y div 16) mod 16) * 16 + ((y mod 16) * 4) div 4 = y"
    using octet_2 [OF b(2), of 0 x] by simp
  then show ?case using octet_1 [OF b(2), of x] by simp
next
  case (3 x)
  have "(x div 4) * 4 + ((x mod 4) * 16) div 16 = x"
    using octet_1 [of 0 x] by simp
  then show ?case by simp
next
  case 4
  then show ?case by simp
qed

lemma b64_sextets_length:
  "length (b64_sextets xs) = (4 * length xs + 2) div 3"
  by (induction xs rule: b64_sextets.induct) simp_all


lemma b64_sextets_length_mod:
  "length (b64_sextets xs) mod 4 =
     (if length xs mod 3 = 0 then 0 else if length xs mod 3 = 1 then 2 else 3)"
proof (induction xs rule: b64_sextets.induct)
  case (1 x y z rest)
  have "length (x # y # z # rest) = length rest + 3" by simp
  then have a: "length (x # y # z # rest) mod 3 = length rest mod 3"
    by (simp only: mod_add_self2)
  have "length (b64_sextets (x # y # z # rest)) = length (b64_sextets rest) + 4" by simp
  then have b: "length (b64_sextets (x # y # z # rest)) mod 4 = length (b64_sextets rest) mod 4"
    by (simp only: mod_add_self2)
  show ?case unfolding a b by (rule 1)
qed simp_all

lemma encoded_length:
  "(length (b64_sextets xs) + length (b64_padding (length xs))) mod 4 = 0"
  "length (b64_sextets xs) mod 4 \<noteq> 1"
proof -
  have m: "length xs mod 3 = 0 \<or> length xs mod 3 = 1 \<or> length xs mod 3 = 2" by arith
  show "(length (b64_sextets xs) + length (b64_padding (length xs))) mod 4 = 0"
    using m b64_sextets_length_mod [of xs]
    by (auto simp add: b64_padding_def mod_Suc)
  show "length (b64_sextets xs) mod 4 \<noteq> 1"
    using m b64_sextets_length_mod [of xs] by auto
qed

lemma strip_padding_body:
  assumes "CHR ''='' \<notin> set body" and "(length body + length pad) mod 4 = 0"
    and "pad = [] \<or> pad = ''='' \<or> pad = ''==''"
  shows "strip_padding (body @ pad) = body"
proof -
  have no: "drop n body \<noteq> CHR ''='' # r" for n r
  proof
    assume "drop n body = CHR ''='' # r"
    then have "CHR ''='' \<in> set (drop n body)" by simp
    then show False using assms(1) set_drop_subset [of n body] by blast
  qed
  consider "pad = []" | "pad = ''=''" | "pad = ''==''" using assms(3) by blast
  then show ?thesis
  proof cases
    case 1
    then show ?thesis using assms(2) no by (simp add: strip_padding_def)
  next
    case 2
    then have l: "length body mod 4 = 3" using assms(2) by (simp add: mod_Suc split: if_splits)
    then have b: "1 \<le> length body" by arith
    have d: "drop (length body - 1) (body @ ''='') = drop (length body - 1) body @ ''=''"
      by simp
    have n: "drop (length body - 1) body @ ''='' \<noteq> ''==''"
    proof
      assume "drop (length body - 1) body @ ''='' = ''==''"
      then have "drop (length body - 1) body = ''=''" by simp
      then show False using no by blast
    qed
    have e: "Suc (length body) - 2 = length body - 1" by simp
    show ?thesis
      using 2 assms(2) n b by (simp add: strip_padding_def e)
  next
    case 3
    then show ?thesis using assms(2) by (simp add: strip_padding_def)
  qed
qed

lemma atob_base64_encode:
  "atob (base64_encode bs) = Inr (map (\<lambda>b. char_of (unat b)) bs)"
proof -
  let ?xs = "map unat bs"
  let ?body = "map b64_char (b64_sextets ?xs)"
  let ?pad = "b64_padding (length bs)"
  have x: "\<forall>x \<in> set ?xs. x < 256"
    using unsigned_less [where 'b = 8] by auto
  have v: "\<forall>v \<in> set (b64_sextets ?xs). v < 64"
    by (rule b64_sextets_bound [OF x])
  have p: "?pad = [] \<or> ?pad = ''='' \<or> ?pad = ''==''"
    by (simp add: b64_padding_def)
  have w: "filter (\<lambda>c. \<not> is_ascii_whitespace c) (?body @ ?pad) = ?body @ ?pad"
  proof -
    have "\<forall>c \<in> set ?body. \<not> is_ascii_whitespace c" using v b64_char_plain(1) by auto
    moreover have "\<forall>c \<in> set ?pad. \<not> is_ascii_whitespace c"
      using p by (auto simp add: is_ascii_whitespace_def)
    ultimately show ?thesis by (simp add: filter_id_conv)
  qed
  have "\<forall>v \<in> set (b64_sextets ?xs). b64_char v \<noteq> CHR ''=''"
    using v b64_char_plain(2) by blast
  then have e: "CHR ''='' \<notin> set ?body" by auto
  have l: "(length ?body + length ?pad) mod 4 = 0" "length ?body mod 4 \<noteq> 1"
    using encoded_length [of ?xs] by simp_all
  have s: "strip_padding (?body @ ?pad) = ?body"
    by (rule strip_padding_body [OF e l(1) p])
  have ok: "\<not> (\<exists>c \<in> set ?body. b64_value c = None)"
    using v b64_value_char by auto
  have m: "map (\<lambda>c. the (b64_value c)) ?body = b64_sextets ?xs"
    using v b64_value_char by (simp add: map_idI)
  have "atob (base64_encode bs) = Inr (map char_of (b64_octets (b64_sextets ?xs)))"
    unfolding atob_def base64_encode_def w s Let_def using l(2) ok m by simp
  then show ?thesis
    by (simp add: b64_octets_sextets [OF x] comp_def)
qed

lemma base64_encode_no_comma: "CHR '','' \<notin> set (base64_encode bs)"
proof -
  have x: "\<forall>x \<in> set (map unat bs). x < 256"
    using unsigned_less [where 'b = 8] by auto
  have v: "\<forall>v \<in> set (b64_sextets (map unat bs)). v < 64"
    by (rule b64_sextets_bound [OF x])
  have "\<forall>v \<in> set (b64_sextets (map unat bs)). b64_char v \<noteq> CHR '',''"
    using v b64_char_plain(3) by blast
  then have "CHR '','' \<notin> set (map b64_char (b64_sextets (map unat bs)))"
    by auto
  then show ?thesis by (auto simp add: base64_encode_def b64_padding_def)
qed


lemma byte_of_char_of: "of_nat (of_char (char_of (unat b))) = (b :: 8 word)"
proof -
  have "unat b < 256" using unsigned_less [of b] by simp
  then have "of_char (char_of (unat b)) = unat b" by simp
  then show ?thesis by simp
qed

lemma data_url_parts:
  fixes mime :: string and bs :: "8 word list"
  assumes "CHR '','' \<notin> set mime"
  defines "s \<equiv> ''data:'' @ mime @ '';base64,'' @ base64_encode bs"
  shows "CHR '','' \<in> set s" and "url_header s = ''data:'' @ mime @ CHR '';'' # ''base64''"
    and "url_payload s = base64_encode bs"
proof -
  let ?h = "''data:'' @ mime @ '';base64''"
  let ?P = "\<lambda>c. c \<noteq> CHR '',''"
  have s: "s = ?h @ CHR '','' # base64_encode bs" by (simp add: s_def)
  have h: "\<forall>c \<in> set ?h. ?P c" using assms(1) by auto
  show "CHR '','' \<in> set s" by (simp add: s)
  have "takeWhile ?P s = ?h @ takeWhile ?P (CHR '','' # base64_encode bs)"
    unfolding s by (rule takeWhile_append2) (use h in blast)
  then show "url_header s = ''data:'' @ mime @ CHR '';'' # ''base64''"
    by (simp add: url_header_def)
  have "dropWhile ?P s = dropWhile ?P (CHR '','' # base64_encode bs)"
    unfolding s by (rule dropWhile_append2) (use h in blast)
  then have "drop 1 (dropWhile ?P s) = base64_encode bs" by simp
  moreover have "takeWhile ?P (base64_encode bs) = base64_encode bs"
    using base64_encode_no_comma [of bs] by auto
  ultimately show "url_payload s = base64_encode bs"
    by (simp only: url_payload_def)
qed

lemma dataURLtoFile_base64:
  assumes "mime \<noteq> []" and "CHR '','' \<notin> set mime" and "CHR '';'' \<notin> set mime"
    and "lower_printable mime"
  shows "dataURLtoFile (''data:'' @ mime @ '';base64,'' @ base64_encode bs) fn =
           Inr \<lparr>file_name = fn, file_type = mime, file_bytes = bs\<rparr>"
proof -
  note p = data_url_parts [OF assms(2), where bs = bs]
  have m: "mime_match (''data:'' @ mime @ CHR '';'' # ''base64'') = Some mime"
    by (rule mime_match_data_header [OF assms(3) lower_printable_no_terminator [OF assms(4)]])
  have b: "map (\<lambda>c. of_nat (of_char c)) (map (\<lambda>b. char_of (unat b)) bs) = bs"
    by (simp only: map_map comp_def byte_of_char_of list.map_ident)
  show ?thesis
    unfolding dataURLtoFile_comma [OF p(1)] p(2) p(3) m atob_base64_encode
    using assms(1) b by (simp add: file_type_option_plain [OF assms(4)])
qed

lemma encoded_foo: "base64_encode [102, 111, 111] = ''Zm9v''"
  by code_simp

lemma text_data_url_parts:
  "CHR '','' \<in> set text_data_url" "mime_match (url_header text_data_url) = Some ''text/plain''"
  "atob (url_payload text_data_url) = Inr ''foo''"
  by code_simp+

lemma capital_data_url_parts:
  "CHR '','' \<in> set capital_data_url"
  "mime_match (url_header capital_data_url) = Some ''Image/PNG''"
  "atob (url_payload capital_data_url) = Inr ''foo''"
  "file_type_option ''Image/PNG'' = ''image/png''"
  by code_simp+

lemma tab_data_url_parts:
  "CHR '','' \<in> set tab_data_url"
  "mime_match (url_header tab_data_url) = Some (''image/'' @ [char_of (9 :: nat)] @ ''png'')"
  "atob (url_payload tab_data_url) = Inr ''foo''"
  "file_type_option (''image/'' @ [char_of (9 :: nat)] @ ''png'') = []"
  by code_simp+

lemma truncated_data_url_parts:
  "CHR '','' \<in> set truncated_data_url"
  "mime_match (url_header truncated_data_url) = Some ''image/png''"
  "url_payload truncated_data_url = ''Zm9vY''"
  by code_simp+

lemma truncated_data_url_throws:
  "dataURLtoFile truncated_data_url ''scene.jpeg'' = Inl atob_error"
  by code_simp

text \<open>
  C8, as the code has it: \<open>dataURLtoFile\<close> throws exactly when the input has no comma, or
  the regular expression finds no MIME type (no match, or an empty one) in the header
  before the first comma, or \<open>atob\<close> rejects the payload between the first comma and the
  next one. In every other case it returns the file with the given name and the bytes that
  \<open>atob\<close> decodes from that payload, which is all that follows the first comma when there
  is no second one; its type is what the File constructor makes of the MIME type found:
  that type in lower case, or the empty string when it has a character outside U+0020 to
  U+007E. On a well-formed data URL, \<open>data:\<close>, a MIME type of printable ASCII
  characters without capitals, \<open>;base64,\<close> and the encoding of a list of bytes, the
  file has exactly this type and these bytes.
\<close>

theorem dataURLtoFile_throws_iff:
  "(isl (dataURLtoFile s fn) \<longleftrightarrow>
      CHR '','' \<notin> set s \<or> mime_match (url_header s) = None \<or>
      mime_match (url_header s) = Some [] \<or> isl (atob (url_payload s))) \<and>
   (\<forall>mime bstr.
      CHR '','' \<in> set s \<and> mime_match (url_header s) = Some mime \<and> mime \<noteq> [] \<and>
      atob (url_payload s) = Inr bstr \<longrightarrow>
      dataURLtoFile s fn =
        Inr \<lparr>file_name = fn, file_type = file_type_option mime,
             file_bytes = map (\<lambda>c. of_nat (of_char c)) bstr\<rparr>) \<and>
   (CHR '','' \<notin> set (drop 1 (dropWhile (\<lambda>c. c \<noteq> CHR '','') s)) \<longrightarrow>
      url_payload s = drop 1 (dropWhile (\<lambda>c. c \<noteq> CHR '','') s)) \<and>
   (m \<noteq> [] \<and> CHR '','' \<notin> set m \<and> CHR '';'' \<notin> set m \<and> lower_printable m \<longrightarrow>
      dataURLtoFile (''data:'' @ m @ '';base64,'' @ base64_encode bs) fn =
        Inr \<lparr>file_name = fn, file_type = m, file_bytes = bs\<rparr>)"
proof (intro conjI)
  show "m \<noteq> [] \<and> CHR '','' \<notin> set m \<and> CHR '';'' \<notin> set m \<and> lower_printable m \<longrightarrow>
      dataURLtoFile (''data:'' @ m @ '';base64,'' @ base64_encode bs) fn =
        Inr \<lparr>file_name = fn, file_type = m, file_bytes = bs\<rparr>"
    using dataURLtoFile_base64 [of m bs fn] by blast
  show "isl (dataURLtoFile s fn) \<longleftrightarrow>
      CHR '','' \<notin> set s \<or> mime_match (url_header s) = None \<or>
      mime_match (url_header s) = Some [] \<or> isl (atob (url_payload s))"
  proof (cases "CHR '','' \<in> set s")
    case False
    then show ?thesis by (simp add: dataURLtoFile_no_comma)
  next
    case True
    then show ?thesis
      by (simp add: dataURLtoFile_comma split: option.splits sum.splits)
  qed
  show "\<forall>mime bstr.
      CHR '','' \<in> set s \<and> mime_match (url_header s) = Some mime \<and> mime \<noteq> [] \<and>
      atob (url_payload s) = Inr bstr \<longrightarrow>
      dataURLtoFile s fn =
        Inr \<lparr>file_name = fn, file_type = file_type_option mime,
             file_bytes = map (\<lambda>c. of_nat (of_char c)) bstr\<rparr>"
    by (simp add: dataURLtoFile_comma)
  show "CHR '','' \<notin> set (drop 1 (dropWhile (\<lambda>c. c \<noteq> CHR '','') s)) \<longrightarrow>
      url_payload s = drop 1 (dropWhile (\<lambda>c. c \<noteq> CHR '','') s)"
    by (auto simp add: url_payload_def)
qed

theorem dataURLtoFile_throws_iff_witness:
  "CHR '','' \<in> set text_data_url \<and>
   mime_match (url_header text_data_url) = Some ''text/plain'' \<and>
   atob (url_payload text_data_url) = Inr ''foo'' \<and>
   dataURLtoFile text_data_url ''notes.txt'' =
     Inr \<lparr>file_name = ''notes.txt'', file_type = ''text/plain'', file_bytes = [102, 111, 111]\<rparr> \<and>
   isl (dataURLtoFile text_data_url ''notes.txt'') = False \<and>
   isl (dataURLtoFile ''https://example.com/scene.jpeg'' ''notes.txt'') = True \<and>
   base64_encode [102, 111, 111] = ''Zm9v'' \<and>
   dataURLtoFile (''data:'' @ ''text/plain'' @ '';base64,'' @ base64_encode [102, 111, 111])
       ''notes.txt'' =
     Inr \<lparr>file_name = ''notes.txt'', file_type = ''text/plain'', file_bytes = [102, 111, 111]\<rparr> \<and>
   dataURLtoFile capital_data_url ''door.png'' =
     Inr \<lparr>file_name = ''door.png'', file_type = ''image/png'', file_bytes = [102, 111, 111]\<rparr> \<and>
   dataURLtoFile tab_data_url ''door.png'' =
     Inr \<lparr>file_name = ''door.png'', file_type = [], file_bytes = [102, 111, 111]\<rparr>"
proof -
  note C = dataURLtoFile_throws_iff [where s = capital_data_url and fn = "''door.png''"
      and m = "''text/plain''" and bs = "[102, 111, 111]"]
  note D = dataURLtoFile_throws_iff [where s = tab_data_url and fn = "''door.png''"
      and m = "''text/plain''" and bs = "[102, 111, 111]"]
  have 5: "dataURLtoFile capital_data_url ''door.png'' =
     Inr \<lparr>file_name = ''door.png'', file_type = ''image/png'', file_bytes = [102, 111, 111]\<rparr>"
    using C [THEN conjunct2, THEN conjunct1, rule_format, of "''Image/PNG''" "''foo''"]
      capital_data_url_parts
    by simp
  have 6: "dataURLtoFile tab_data_url ''door.png'' =
     Inr \<lparr>file_name = ''door.png'', file_type = [], file_bytes = [102, 111, 111]\<rparr>"
    using D [THEN conjunct2, THEN conjunct1, rule_format,
        of "''image/'' @ [char_of (9 :: nat)] @ ''png''" "''foo''"]
      tab_data_url_parts
    by simp
  note A = dataURLtoFile_throws_iff [where s = text_data_url and fn = "''notes.txt''"
      and m = "''text/plain''" and bs = "[102, 111, 111]"]
  note B = dataURLtoFile_throws_iff [where s = "''https://example.com/scene.jpeg''"
      and fn = "''notes.txt''" and m = "''text/plain''" and bs = "[102, 111, 111]"]
  have h: "''text/plain'' \<noteq> [] \<and> CHR '','' \<notin> set ''text/plain'' \<and>
      CHR '';'' \<notin> set ''text/plain'' \<and> lower_printable ''text/plain''"
    by (simp add: lower_printable_def)
  have 4: "dataURLtoFile (''data:'' @ ''text/plain'' @ '';base64,'' @ base64_encode [102, 111, 111])
       ''notes.txt'' =
     Inr \<lparr>file_name = ''notes.txt'', file_type = ''text/plain'', file_bytes = [102, 111, 111]\<rparr>"
    using A [THEN conjunct2, THEN conjunct2, THEN conjunct2] h by (rule mp)
  have 1: "dataURLtoFile text_data_url ''notes.txt'' =
      Inr \<lparr>file_name = ''notes.txt'', file_type = ''text/plain'',
           file_bytes = map (\<lambda>c. of_nat (of_char c)) ''foo''\<rparr>"
    using A [THEN conjunct2, THEN conjunct1, rule_format, of "''text/plain''" "''foo''"]
      text_data_url_parts file_type_option_plain [of "''text/plain''"]
    by (simp add: lower_printable_def)
  have 2: "isl (dataURLtoFile text_data_url ''notes.txt'') = False"
    using A [THEN conjunct1] text_data_url_parts by simp
  have 3: "isl (dataURLtoFile ''https://example.com/scene.jpeg'' ''notes.txt'') = True"
    using B [THEN conjunct1] by simp
  show ?thesis
    using 1 2 3 text_data_url_parts encoded_foo 4 5 6 by (intro conjI) simp_all
qed

text \<open>
  The claim as stated fails on a data URL whose payload was cut off: the input has a comma
  and the MIME type is found, and \<open>dataURLtoFile\<close> throws what \<open>atob\<close> throws.
\<close>

theorem dataURLtoFile_truncated_counterexample:
  "CHR '','' \<in> set truncated_data_url \<and>
   mime_match (url_header truncated_data_url) = Some ''image/png'' \<and>
   url_payload truncated_data_url = ''Zm9vY'' \<and>
   dataURLtoFile truncated_data_url ''scene.jpeg'' = Inl atob_error"
  using truncated_data_url_parts truncated_data_url_throws by simp

subsection \<open>Facts about the handlers\<close>

lemma door_drop_request_None_iff:
  "door_drop_request s r = None \<longleftrightarrow>
     doorImageFile s = None \<or> sceneImage s = None \<or> selectedDoor s = None"
  by (simp add: door_drop_request_def split: option.splits)

lemma door_drop_request_Some:
  "doorImageFile s \<noteq> None \<Longrightarrow> sceneImage s \<noteq> None \<Longrightarrow> selectedDoor s \<noteq> None \<Longrightarrow>
   door_drop_request s r =
     Some \<lparr>req_doorImageFile = the (doorImageFile s),
           req_doorName = door_name (the (selectedDoor s)),
           req_sceneImage = the (sceneImage s),
           req_sceneName = file_name (the (sceneImage s)),
           req_relativePosition = r\<rparr>"
  by (auto simp add: door_drop_request_def)

lemma drop_finally_sel:
  "api_calls (drop_finally w) = api_calls w"
  "app (drop_finally w) = (app w)\<lparr>isLoading := False, persistedOrbPosition := None\<rparr>"
  by (simp_all add: drop_finally_def)

lemma drop_catch_sel:
  "api_calls (drop_catch e w) = api_calls w"
  "app (drop_catch e w) =
     (app w)\<lparr>error := Some (''Failed to generate the image. '' @ errorMessage e)\<rparr>"
  by (simp_all add: drop_catch_def)

lemma handleDoorDrop_settle_rejected:
  "handleDoorDrop_settle now (Inl e) w = drop_finally (drop_catch e w)"
  by (simp add: handleDoorDrop_settle_def)

lemma handleDoorDrop_settle_unconverted:
  "dataURLtoFile (finalImageUrl res) (generated_scene_name now) = Inl e \<Longrightarrow>
   handleDoorDrop_settle now (Inr res) w =
     drop_finally (drop_catch e
       (w\<lparr>app := (app w)\<lparr>debugImageUrl := res_debugImageUrl res,
                            debugPrompt := finalPrompt res\<rparr>\<rparr>))"
  by (simp only: handleDoorDrop_settle_def sum.case Let_def)

lemma handleDoorDrop_settle_converted:
  "dataURLtoFile (finalImageUrl res) (generated_scene_name now) = Inr f \<Longrightarrow>
   handleDoorDrop_settle now (Inr res) w =
     drop_finally
       (w\<lparr>app := (app w)\<lparr>debugImageUrl := res_debugImageUrl res,
                            debugPrompt := finalPrompt res, sceneImage := Some f\<rparr>\<rparr>)"
  by (simp only: handleDoorDrop_settle_def sum.case Let_def) simp

lemma handleDoorDrop_settle_api_calls:
  "api_calls (handleDoorDrop_settle now r w) = api_calls w"
proof (cases r)
  case (Inl e)
  then show ?thesis
    by (simp add: handleDoorDrop_settle_rejected drop_finally_sel drop_catch_sel)
next
  case (Inr res)
  then show ?thesis
    by (cases "dataURLtoFile (finalImageUrl res) (generated_scene_name now)")
       (simp_all add: handleDoorDrop_settle_unconverted handleDoorDrop_settle_converted
          drop_finally_sel drop_catch_sel)
qed

lemma handleDoorDrop_settle_finished:
  "isLoading (app (handleDoorDrop_settle now r w)) = False \<and>
   persistedOrbPosition (app (handleDoorDrop_settle now r w)) = None"
proof (cases r)
  case (Inl e)
  then show ?thesis
    by (simp add: handleDoorDrop_settle_rejected drop_finally_sel drop_catch_sel)
next
  case (Inr res)
  then show ?thesis
    by (cases "dataURLtoFile (finalImageUrl res) (generated_scene_name now)")
       (simp_all add: handleDoorDrop_settle_unconverted handleDoorDrop_settle_converted
          drop_finally_sel drop_catch_sel)
qed

lemma handleDoorDrop_call_Some:
  "door_drop_request (app w) r = Some req \<Longrightarrow>
   handleDoorDrop_call p r w =
     w\<lparr>app := (app w)\<lparr>persistedOrbPosition := Some p, isLoading := True, error := None\<rparr>,
       api_calls := api_calls w @ [req]\<rparr>"
  by (simp add: handleDoorDrop_call_def)

lemma handleDoorDrop_call_None:
  "door_drop_request (app w) r = None \<Longrightarrow>
   handleDoorDrop_call p r w =
     w\<lparr>app := (app w)\<lparr>error := Some ''An unexpected error occurred. Please try again.''\<rparr>\<rparr>"
  by (simp add: handleDoorDrop_call_def)

lemma decimal_sample: "decimal 1700000000123 = ''1700000000123''"
  by (simp add: decimal.simps)

lemma generated_scene_name_sample:
  "generated_scene_name 1700000000123 = ''generated-scene-1700000000123.jpeg''"
  by (simp add: generated_scene_name_def decimal_sample)

lemma gif_converted_name:
  "dataURLtoFile gif_data_url ''generated-scene-1700000000123.jpeg'' =
     Inr \<lparr>file_name = ''generated-scene-1700000000123.jpeg'', file_type = ''image/gif'',
          file_bytes = gif_bytes\<rparr>"
  by code_simp

lemma gif_converted:
  "dataURLtoFile gif_data_url (generated_scene_name 1700000000123) =
     Inr \<lparr>file_name = ''generated-scene-1700000000123.jpeg'', file_type = ''image/gif'',
          file_bytes = gif_bytes\<rparr>"
  by (simp only: generated_scene_name_sample gif_converted_name)

lemma https_url_refused_name:
  "dataURLtoFile ''https://example.com/scene.jpeg'' ''generated-scene-1700000000123.jpeg'' =
     Inl (Error ''Invalid data URL'')"
  by code_simp

lemma https_url_refused:
  "dataURLtoFile ''https://example.com/scene.jpeg'' (generated_scene_name 1700000000123) =
     Inl (Error ''Invalid data URL'')"
  by (simp only: generated_scene_name_sample https_url_refused_name)

lemma dragging_world_request:
  "door_drop_request (app dragging_world) r =
     Some \<lparr>req_doorImageFile = door_photo, req_doorName = ''my-door.png'',
           req_sceneImage = room_photo, req_sceneName = ''room.jpg'',
           req_relativePosition = r\<rparr>"
  by (simp add: door_drop_request_def dragging_world_def initial_world_def initial_state_def
        uploaded_door_def room_photo_def)

lemma dragging_world_present:
  "doorImageFile (app dragging_world) \<noteq> None" "sceneImage (app dragging_world) \<noteq> None"
  "selectedDoor (app dragging_world) \<noteq> None"
  by (simp_all add: dragging_world_def initial_world_def)

lemma dragging_world_scene: "sceneImage (app dragging_world) = Some room_photo"
  by (simp add: dragging_world_def initial_world_def)

lemma https_url_refused':
  "dataURLtoFile (finalImageUrl \<lparr>finalImageUrl = ''https://example.com/scene.jpeg'',
       res_debugImageUrl = None, finalPrompt = Some ''prompt''\<rparr>)
     (generated_scene_name 1700000000123) = Inl (Error ''Invalid data URL'')"
  using https_url_refused by simp

lemma select_catch_sel:
  "app (select_catch e w) =
     (app w)\<lparr>error := Some (''Could not load the selected door. Details: '' @ errorMessage e)\<rparr>"
  "fetched (select_catch e w) = fetched w"
  by (simp_all add: select_catch_def)

lemma select_finally_sel:
  "app (select_finally w) = (app w)\<lparr>isLoading := False\<rparr>"
  "fetched (select_finally w) = fetched w"
  by (simp_all add: select_finally_def)

lemma handleSelectPredefinedDoor_settle_rejected:
  "handleSelectPredefinedDoor_settle d (Inl e) w = select_finally (select_catch e w)"
  by (simp add: handleSelectPredefinedDoor_settle_def)

lemma handleSelectPredefinedDoor_settle_not_ok:
  "\<not> resp_ok resp \<Longrightarrow>
   handleSelectPredefinedDoor_settle d (Inr resp) w =
     select_finally (select_catch (Error (''Failed to load door image: '' @ door_name d)) w)"
  by (simp add: handleSelectPredefinedDoor_settle_def)

lemma handleSelectPredefinedDoor_settle_no_blob:
  "resp_ok resp \<Longrightarrow> resp_blob resp = Inl e \<Longrightarrow>
   handleSelectPredefinedDoor_settle d (Inr resp) w = select_finally (select_catch e w)"
  by (simp add: handleSelectPredefinedDoor_settle_def)

lemma handleSelectPredefinedDoor_settle_blob:
  "resp_ok resp \<Longrightarrow> resp_blob resp = Inr b \<Longrightarrow>
   handleSelectPredefinedDoor_settle d (Inr resp) w =
     select_finally
       (w\<lparr>app := (app w)\<lparr>
            doorImageFile :=
              Some \<lparr>file_name = door_fileName d,
                    file_type = file_type_option (door_fileType b),
                    file_bytes = blob_bytes b\<rparr>,
            selectedDoor := Some d\<rparr>\<rparr>)"
  by (simp add: handleSelectPredefinedDoor_settle_def new_File_def)

lemma handleSelectPredefinedDoor_settle_finished:
  "isLoading (app (handleSelectPredefinedDoor_settle d r w)) = False \<and>
   fetched (handleSelectPredefinedDoor_settle d r w) = fetched w"
proof (cases r)
  case (Inl e)
  then show ?thesis
    by (simp add: handleSelectPredefinedDoor_settle_rejected select_finally_sel select_catch_sel)
next
  case (Inr resp)
  show ?thesis
  proof (cases "resp_ok resp")
    case False
    then show ?thesis
      using Inr
      by (simp add: handleSelectPredefinedDoor_settle_not_ok select_finally_sel select_catch_sel)
  next
    case True
    then show ?thesis
      using Inr
      by (cases "resp_blob resp")
         (simp_all add: handleSelectPredefinedDoor_settle_no_blob
            handleSelectPredefinedDoor_settle_blob select_finally_sel select_catch_sel)
  qed
qed

lemma handleSelectPredefinedDoor_call_sel:
  "app (handleSelectPredefinedDoor_call d w) = (app w)\<lparr>isLoading := True, error := None\<rparr>"
  "fetched (handleSelectPredefinedDoor_call d w) = fetched w @ [imageUrl d]"
  by (simp_all add: handleSelectPredefinedDoor_call_def)

subsection \<open>What the handlers and a render leave unchanged\<close>

lemma drop_finally_frame:
  "object_urls (drop_finally w) = object_urls w" "revoked (drop_finally w) = revoked w"
  "scene_dep (drop_finally w) = scene_dep w" "door_dep (drop_finally w) = door_dep w"
  by (simp_all add: drop_finally_def)

lemma drop_catch_frame:
  "object_urls (drop_catch e w) = object_urls w" "revoked (drop_catch e w) = revoked w"
  "scene_dep (drop_catch e w) = scene_dep w" "door_dep (drop_catch e w) = door_dep w"
  by (simp_all add: drop_catch_def)

lemma handleDoorDrop_settle_frame:
  "loadingMessageIndex (app (handleDoorDrop_settle now r w)) = loadingMessageIndex (app w) \<and>
   selectedDoor (app (handleDoorDrop_settle now r w)) = selectedDoor (app w) \<and>
   object_urls (handleDoorDrop_settle now r w) = object_urls w \<and>
   revoked (handleDoorDrop_settle now r w) = revoked w \<and>
   scene_dep (handleDoorDrop_settle now r w) = scene_dep w \<and>
   doorImageFile (app (handleDoorDrop_settle now r w)) = doorImageFile (app w)"
proof (cases r)
  case (Inl e)
  then show ?thesis
    by (simp add: handleDoorDrop_settle_rejected drop_finally_sel drop_catch_sel
          drop_finally_frame drop_catch_frame)
next
  case (Inr res)
  then show ?thesis
    by (cases "dataURLtoFile (finalImageUrl res) (generated_scene_name now)")
       (simp_all add: handleDoorDrop_settle_unconverted handleDoorDrop_settle_converted
          drop_finally_sel drop_catch_sel drop_finally_frame drop_catch_frame)
qed

lemma handleDoorDrop_call_frame:
  "loadingMessageIndex (app (handleDoorDrop_call p r w)) = loadingMessageIndex (app w) \<and>
   selectedDoor (app (handleDoorDrop_call p r w)) = selectedDoor (app w) \<and>
   object_urls (handleDoorDrop_call p r w) = object_urls w \<and>
   revoked (handleDoorDrop_call p r w) = revoked w \<and>
   scene_dep (handleDoorDrop_call p r w) = scene_dep w \<and>
   doorImageFile (app (handleDoorDrop_call p r w)) = doorImageFile (app w)"
  by (cases "door_drop_request (app w) r")
     (simp_all add: handleDoorDrop_call_None handleDoorDrop_call_Some)

lemma select_frame:
  "object_urls (select_finally w) = object_urls w" "revoked (select_finally w) = revoked w"
  "scene_dep (select_finally w) = scene_dep w" "door_dep (select_finally w) = door_dep w"
  "object_urls (select_catch e w) = object_urls w" "revoked (select_catch e w) = revoked w"
  "scene_dep (select_catch e w) = scene_dep w" "door_dep (select_catch e w) = door_dep w"
  by (simp_all add: select_finally_def select_catch_def)

lemma handleSelectPredefinedDoor_settle_frame:
  "loadingMessageIndex (app (handleSelectPredefinedDoor_settle d r w)) =
     loadingMessageIndex (app w) \<and>
   (selectedDoor (app (handleSelectPredefinedDoor_settle d r w)) = selectedDoor (app w) \<and>
    doorImageFile (app (handleSelectPredefinedDoor_settle d r w)) = doorImageFile (app w) \<or>
    selectedDoor (app (handleSelectPredefinedDoor_settle d r w)) = Some d) \<and>
   object_urls (handleSelectPredefinedDoor_settle d r w) = object_urls w \<and>
   revoked (handleSelectPredefinedDoor_settle d r w) = revoked w \<and>
   scene_dep (handleSelectPredefinedDoor_settle d r w) = scene_dep w"
proof (cases r)
  case (Inl e)
  then show ?thesis
    by (simp add: handleSelectPredefinedDoor_settle_rejected select_finally_sel select_catch_sel
          select_frame)
next
  case (Inr resp)
  show ?thesis
  proof (cases "resp_ok resp")
    case False
    then show ?thesis
      using Inr
      by (simp add: handleSelectPredefinedDoor_settle_not_ok select_finally_sel select_catch_sel
            select_frame)
  next
    case True
    then show ?thesis
      using Inr
      by (cases "resp_blob resp")
         (simp_all add: handleSelectPredefinedDoor_settle_no_blob
            handleSelectPredefinedDoor_settle_blob select_finally_sel select_catch_sel
            select_frame)
  qed
qed

lemma handleTouchEnd_frame:
  "loadingMessageIndex (app (handleTouchEnd t dz img w)) = loadingMessageIndex (app w) \<and>
   selectedDoor (app (handleTouchEnd t dz img w)) = selectedDoor (app w) \<and>
   object_urls (handleTouchEnd t dz img w) = object_urls w \<and>
   revoked (handleTouchEnd t dz img w) = revoked w \<and>
   scene_dep (handleTouchEnd t dz img w) = scene_dep w \<and>
   doorImageFile (app (handleTouchEnd t dz img w)) = doorImageFile (app w)"
  by (simp add: handleTouchEnd_def Let_def handleDoorDrop_call_frame
        split: option.splits prod.splits)

lemma handleTouchMove_frame:
  "loadingMessageIndex (app (handleTouchMove t dz w)) = loadingMessageIndex (app w) \<and>
   selectedDoor (app (handleTouchMove t dz w)) = selectedDoor (app w) \<and>
   object_urls (handleTouchMove t dz w) = object_urls w \<and>
   revoked (handleTouchMove t dz w) = revoked w \<and>
   scene_dep (handleTouchMove t dz w) = scene_dep w \<and>
   doorImageFile (app (handleTouchMove t dz w)) = doorImageFile (app w)"
  by (simp add: handleTouchMove_def Let_def split: option.splits)

lemma handleTouchStart_frame:
  "loadingMessageIndex (app (handleTouchStart t w)) = loadingMessageIndex (app w) \<and>
   selectedDoor (app (handleTouchStart t w)) = selectedDoor (app w) \<and>
   object_urls (handleTouchStart t w) = object_urls w \<and>
   revoked (handleTouchStart t w) = revoked w \<and>
   scene_dep (handleTouchStart t w) = scene_dep w \<and>
   doorImageFile (app (handleTouchStart t w)) = doorImageFile (app w)"
  by (simp add: handleTouchStart_def)


lemma handleSelectPredefinedDoor_call_frame:
  "loadingMessageIndex (app (handleSelectPredefinedDoor_call d w)) = loadingMessageIndex (app w) \<and>
   selectedDoor (app (handleSelectPredefinedDoor_call d w)) = selectedDoor (app w) \<and>
   object_urls (handleSelectPredefinedDoor_call d w) = object_urls w \<and>
   revoked (handleSelectPredefinedDoor_call d w) = revoked w \<and>
   scene_dep (handleSelectPredefinedDoor_call d w) = scene_dep w \<and>
   doorImageFile (app (handleSelectPredefinedDoor_call d w)) = doorImageFile (app w)"
  by (simp add: handleSelectPredefinedDoor_call_def)

lemma handleDoorImageUpload_frame:
  "loadingMessageIndex (app (handleDoorImageUpload f now c w)) = loadingMessageIndex (app w) \<and>
   revoked (handleDoorImageUpload f now c w) = revoked w \<and>
   scene_dep (handleDoorImageUpload f now c w) = scene_dep w"
  by (cases c) (simp_all add: handleDoorImageUpload_def createObjectURL_def Let_def)

lemma handleDoorImageUpload_thrown:
  "selectedDoor (app (handleDoorImageUpload f now (Inl e) w)) = selectedDoor (app w) \<and>
   doorImageFile (app (handleDoorImageUpload f now (Inl e) w)) = doorImageFile (app w) \<and>
   object_urls (handleDoorImageUpload f now (Inl e) w) = object_urls w"
  by (simp add: handleDoorImageUpload_def Let_def)

lemma handleDoorImageUpload_created:
  "selectedDoor (app (handleDoorImageUpload f now (Inr suffix) w)) =
     Some \<lparr>door_id = Num (of_nat now), door_name = file_name f, imageUrl = ''blob:'' @ suffix\<rparr> \<and>
   doorImageFile (app (handleDoorImageUpload f now (Inr suffix) w)) = Some f \<and>
   object_urls (handleDoorImageUpload f now (Inr suffix) w) =
     object_urls w @ [(''blob:'' @ suffix, f)]"
  by (simp add: handleDoorImageUpload_def createObjectURL_def Let_def)

lemma tick_frame:
  "selectedDoor (app (tick w)) = selectedDoor (app w) \<and>
   object_urls (tick w) = object_urls w \<and>
   revoked (tick w) = revoked w \<and>
   scene_dep (tick w) = scene_dep w \<and>
   doorImageFile (app (tick w)) = doorImageFile (app w)"
  by (simp add: tick_def)

lemma startsWith_blob [simp]: "startsWith (''blob:'' @ suffix) ''blob:''"
  by (simp add: startsWith_def)


lemma use_scene_effect_sel:
  "app (use_scene_effect u w) = app w" "object_urls (use_scene_effect u w) = object_urls w"
  "scene_dep (use_scene_effect u w) = u" "door_dep (use_scene_effect u w) = door_dep w"
  "loading_dep (use_scene_effect u w) = loading_dep w" "interval (use_scene_effect u w) = interval w"
  by (simp_all add: use_scene_effect_def scene_url_cleanup_def revokeObjectURL_def)

lemma use_scene_effect_revoked:
  "revoked (use_scene_effect u w) =
     (if scene_dep w \<noteq> u \<and> truthy (scene_dep w) then revoked w @ [the (scene_dep w)]
      else revoked w)"
  by (simp add: use_scene_effect_def scene_url_cleanup_def revokeObjectURL_def)

lemma use_door_effect_sel:
  "app (use_door_effect u w) = app w" "object_urls (use_door_effect u w) = object_urls w"
  "scene_dep (use_door_effect u w) = scene_dep w" "door_dep (use_door_effect u w) = u"
  "loading_dep (use_door_effect u w) = loading_dep w" "interval (use_door_effect u w) = interval w"
  by (simp_all add: use_door_effect_def door_url_cleanup_def revokeObjectURL_def)

lemma use_door_effect_revoked:
  "revoked (use_door_effect u w) =
     (if door_dep w \<noteq> u \<and> truthy (door_dep w) \<and> startsWith (the (door_dep w)) ''blob:''
      then revoked w @ [the (door_dep w)] else revoked w)"
  by (simp add: use_door_effect_def door_url_cleanup_def revokeObjectURL_def)

lemma use_loading_effect_sel:
  "object_urls (use_loading_effect w) = object_urls w" "revoked (use_loading_effect w) = revoked w"
  "scene_dep (use_loading_effect w) = scene_dep w" "door_dep (use_loading_effect w) = door_dep w"
  "selectedDoor (app (use_loading_effect w)) = selectedDoor (app w)"
  "doorImageFile (app (use_loading_effect w)) = doorImageFile (app w)"
  by (simp_all add: use_loading_effect_def loading_effect_def loading_effect_cleanup_def Let_def)


text \<open>The world in which the effects of a render are committed.\<close>

lemma render_unfold:
  "render suffix w =
     use_loading_effect
       (use_door_effect (map_option imageUrl (selectedDoor (app w)))
          (use_scene_effect
             (case sceneImage (app w) of None \<Rightarrow> None | Some f \<Rightarrow> Some (''blob:'' @ suffix))
             (case sceneImage (app w) of
                None \<Rightarrow> w
              | Some f \<Rightarrow> w\<lparr>object_urls := object_urls w @ [(''blob:'' @ suffix, f)]\<rparr>)))"
  by (simp add: render_def render_body_def commit_def createObjectURL_def Let_def
      split: option.splits)

lemma render_discarded_unfold:
  "render_discarded suffix w =
     (case sceneImage (app w) of
        None \<Rightarrow> w
      | Some f \<Rightarrow> w\<lparr>object_urls := object_urls w @ [(''blob:'' @ suffix, f)]\<rparr>)"
  by (simp add: render_discarded_def render_body_def createObjectURL_def Let_def
      split: option.splits)

lemma render_discarded_frame:
  "app (render_discarded suffix w) = app w \<and>
   revoked (render_discarded suffix w) = revoked w \<and>
   scene_dep (render_discarded suffix w) = scene_dep w \<and>
   door_dep (render_discarded suffix w) = door_dep w \<and>
   loading_dep (render_discarded suffix w) = loading_dep w \<and>
   interval (render_discarded suffix w) = interval w \<and>
   set (object_urls w) \<subseteq> set (object_urls (render_discarded suffix w))"
  by (auto simp add: render_discarded_unfold split: option.splits)

lemma render_scene_dep:
  "scene_dep (render suffix w) =
     (case sceneImage (app w) of None \<Rightarrow> None | Some f \<Rightarrow> Some (''blob:'' @ suffix))"
  by (simp add: render_unfold use_loading_effect_sel use_door_effect_sel use_scene_effect_sel)

lemma render_door_dep:
  "door_dep (render suffix w) = map_option imageUrl (selectedDoor (app w))"
  by (simp add: render_unfold use_loading_effect_sel use_door_effect_sel use_scene_effect_sel)

lemma render_frame:
  "selectedDoor (app (render suffix w)) = selectedDoor (app w) \<and>
   doorImageFile (app (render suffix w)) = doorImageFile (app w)"
  by (simp add: render_unfold use_loading_effect_sel use_door_effect_sel use_scene_effect_sel
      split: option.splits)

lemma render_object_urls:
  "object_urls (render suffix w) =
     (case sceneImage (app w) of
        None \<Rightarrow> object_urls w
      | Some f \<Rightarrow> object_urls w @ [(''blob:'' @ suffix, f)])"
  by (simp add: render_unfold use_loading_effect_sel use_door_effect_sel use_scene_effect_sel
      split: option.splits)


lemma render_revoked:
  "revoked (render suffix w) =
     (let r1 = (if scene_dep w \<noteq> scene_dep (render suffix w) \<and> truthy (scene_dep w)
                then revoked w @ [the (scene_dep w)] else revoked w)
      in if door_dep w \<noteq> door_dep (render suffix w) \<and> truthy (door_dep w) \<and>
            startsWith (the (door_dep w)) ''blob:''
         then r1 @ [the (door_dep w)] else r1)"
  unfolding render_scene_dep render_door_dep
  by (simp add: render_unfold use_loading_effect_sel use_door_effect_sel use_scene_effect_sel
        use_door_effect_revoked use_scene_effect_revoked Let_def
      split: option.splits)

subsection \<open>Dropping the door\<close>

text \<open>
  C3: one invocation of \<open>handleDoorDrop\<close> adds exactly one call of
  \<open>generateCompositeImage\<close>, with the door file, the door's name, the scene image, its name
  and the relative position, when \<open>doorImageFile\<close>, \<open>sceneImage\<close> and \<open>selectedDoor\<close> are
  all set; when one of them is \<open>null\<close> it adds no call and sets the error message.
\<close>

theorem handleDoorDrop_calls:
  "(doorImageFile (app w) \<noteq> None \<and> sceneImage (app w) \<noteq> None \<and> selectedDoor (app w) \<noteq> None \<longrightarrow>
      api_calls (handleDoorDrop generate now position relativePosition w) =
        api_calls w @
          [\<lparr>req_doorImageFile = the (doorImageFile (app w)),
            req_doorName = door_name (the (selectedDoor (app w))),
            req_sceneImage = the (sceneImage (app w)),
            req_sceneName = file_name (the (sceneImage (app w))),
            req_relativePosition = relativePosition\<rparr>]) \<and>
   (doorImageFile (app w) = None \<or> sceneImage (app w) = None \<or> selectedDoor (app w) = None \<longrightarrow>
      api_calls (handleDoorDrop generate now position relativePosition w) = api_calls w \<and>
      error (app (handleDoorDrop generate now position relativePosition w)) =
        Some ''An unexpected error occurred. Please try again.'')"
proof (intro conjI impI)
  assume a: "doorImageFile (app w) \<noteq> None \<and> sceneImage (app w) \<noteq> None \<and> selectedDoor (app w) \<noteq> None"
  show "api_calls (handleDoorDrop generate now position relativePosition w) =
        api_calls w @
          [\<lparr>req_doorImageFile = the (doorImageFile (app w)),
            req_doorName = door_name (the (selectedDoor (app w))),
            req_sceneImage = the (sceneImage (app w)),
            req_sceneName = file_name (the (sceneImage (app w))),
            req_relativePosition = relativePosition\<rparr>]"
    using a
    by (simp add: handleDoorDrop_def door_drop_request_Some handleDoorDrop_settle_api_calls
          handleDoorDrop_call_Some)
next
  assume "doorImageFile (app w) = None \<or> sceneImage (app w) = None \<or> selectedDoor (app w) = None"
  then have n: "door_drop_request (app w) relativePosition = None"
    by (simp add: door_drop_request_None_iff)
  show "api_calls (handleDoorDrop generate now position relativePosition w) = api_calls w"
    by (simp add: handleDoorDrop_def n handleDoorDrop_call_None)
  show "error (app (handleDoorDrop generate now position relativePosition w)) =
        Some ''An unexpected error occurred. Please try again.''"
    by (simp add: handleDoorDrop_def n handleDoorDrop_call_None)
qed


theorem handleDoorDrop_calls_witness:
  "(doorImageFile (app dragging_world) \<noteq> None \<and> sceneImage (app dragging_world) \<noteq> None \<and>
    selectedDoor (app dragging_world) \<noteq> None) \<and>
   api_calls (handleDoorDrop (service_returns gif_data_url) 1700000000123 sample_pos sample_rel
       dragging_world) =
     [\<lparr>req_doorImageFile = door_photo, req_doorName = ''my-door.png'',
       req_sceneImage = room_photo, req_sceneName = ''room.jpg'',
       req_relativePosition = sample_rel\<rparr>] \<and>
   doorImageFile (app initial_world) = None \<and>
   api_calls (handleDoorDrop (service_returns gif_data_url) 1700000000123 sample_pos sample_rel
       initial_world) = [] \<and>
   error (app (handleDoorDrop (service_returns gif_data_url) 1700000000123 sample_pos sample_rel
       initial_world)) = Some ''An unexpected error occurred. Please try again.''"
proof -
  note A = handleDoorDrop_calls [of dragging_world "service_returns gif_data_url" 1700000000123
      sample_pos sample_rel]
  note B = handleDoorDrop_calls [of initial_world "service_returns gif_data_url" 1700000000123
      sample_pos sample_rel]
  have n: "doorImageFile (app initial_world) = None" "api_calls initial_world = []"
    by (simp_all add: initial_world_def initial_state_def)
  have d: "api_calls dragging_world = []" "the (doorImageFile (app dragging_world)) = door_photo"
    "the (sceneImage (app dragging_world)) = room_photo"
    "door_name (the (selectedDoor (app dragging_world))) = ''my-door.png''"
    "file_name room_photo = ''room.jpg''"
    by (simp_all add: dragging_world_def initial_world_def uploaded_door_def room_photo_def)
  show ?thesis
    using A B n dragging_world_present by (simp add: d)
qed

text \<open>
  C2, as the code has it: with the door file, the scene image and the selected door
  present, the scene image is replaced when the call of \<open>generateCompositeImage\<close> resolves
  and \<open>dataURLtoFile\<close> accepts the returned \<open>finalImageUrl\<close>, and the new scene image is
  the converted file. When the call rejects, or when \<open>dataURLtoFile\<close> throws on the
  returned URL, the scene image stays as it was and the error message is set. In every
  case \<open>isLoading\<close> is \<open>false\<close> and \<open>persistedOrbPosition\<close> is \<open>null\<close> when the handler
  has finished.
\<close>

theorem handleDoorDrop_outcome:
  assumes "doorImageFile (app w) \<noteq> None" and "sceneImage (app w) \<noteq> None"
    and "selectedDoor (app w) \<noteq> None"
  shows
    "(\<forall>res f. generate (the (door_drop_request (app w) relativePosition)) = Inr res \<and>
         dataURLtoFile (finalImageUrl res) (generated_scene_name now) = Inr f \<longrightarrow>
         sceneImage (app (handleDoorDrop generate now position relativePosition w)) = Some f) \<and>
     (\<forall>e. generate (the (door_drop_request (app w) relativePosition)) = Inl e \<longrightarrow>
         sceneImage (app (handleDoorDrop generate now position relativePosition w)) =
           sceneImage (app w) \<and>
         error (app (handleDoorDrop generate now position relativePosition w)) =
           Some (''Failed to generate the image. '' @ errorMessage e)) \<and>
     (\<forall>res e. generate (the (door_drop_request (app w) relativePosition)) = Inr res \<and>
         dataURLtoFile (finalImageUrl res) (generated_scene_name now) = Inl e \<longrightarrow>
         sceneImage (app (handleDoorDrop generate now position relativePosition w)) =
           sceneImage (app w) \<and>
         error (app (handleDoorDrop generate now position relativePosition w)) =
           Some (''Failed to generate the image. '' @ errorMessage e)) \<and>
     isLoading (app (handleDoorDrop generate now position relativePosition w)) = False \<and>
     persistedOrbPosition (app (handleDoorDrop generate now position relativePosition w)) = None"
proof -
  obtain req where req: "door_drop_request (app w) relativePosition = Some req"
    using assms door_drop_request_None_iff [of "app w" relativePosition] by auto
  have h: "handleDoorDrop generate now position relativePosition w =
      handleDoorDrop_settle now (generate req)
        (w\<lparr>app := (app w)\<lparr>persistedOrbPosition := Some position, isLoading := True,
                            error := None\<rparr>,
           api_calls := api_calls w @ [req]\<rparr>)"
    by (simp add: handleDoorDrop_def req handleDoorDrop_call_Some)
  show ?thesis
    unfolding h req option.sel
    by (intro conjI allI impI)
       (simp_all add: handleDoorDrop_settle_rejected handleDoorDrop_settle_unconverted
          handleDoorDrop_settle_converted handleDoorDrop_settle_finished
          drop_finally_sel drop_catch_sel)
qed


theorem handleDoorDrop_outcome_witness:
  "doorImageFile (app dragging_world) \<noteq> None \<and> sceneImage (app dragging_world) \<noteq> None \<and>
   selectedDoor (app dragging_world) \<noteq> None \<and>
   sceneImage (app (handleDoorDrop (service_returns gif_data_url) 1700000000123 
       sample_pos sample_rel dragging_world)) =
     Some \<lparr>file_name = ''generated-scene-1700000000123.jpeg'', file_type = ''image/gif'',
           file_bytes = gif_bytes\<rparr> \<and>
   sceneImage (app (handleDoorDrop (\<lambda>req. Inl (Error ''quota exceeded'')) 1700000000123 
       sample_pos sample_rel dragging_world)) =
     Some room_photo \<and>
   error (app (handleDoorDrop (\<lambda>req. Inl (Error ''quota exceeded'')) 1700000000123 
       sample_pos sample_rel dragging_world)) =
     Some ''Failed to generate the image. quota exceeded'' \<and>
   isLoading (app (handleDoorDrop (service_returns gif_data_url) 1700000000123 
       sample_pos sample_rel dragging_world)) = False"
proof -
  note p = dragging_world_present
  note A = handleDoorDrop_outcome [OF p, of "service_returns gif_data_url" sample_rel
      1700000000123 sample_pos]
  note B = handleDoorDrop_outcome [OF p, of "\<lambda>req. Inl (Error ''quota exceeded'')" sample_rel
      1700000000123 sample_pos]
  have g: "service_returns gif_data_url (the (door_drop_request (app dragging_world) sample_rel)) =
      Inr \<lparr>finalImageUrl = gif_data_url, res_debugImageUrl = None, finalPrompt = Some ''prompt''\<rparr>"
    by (simp add: service_returns_def)
  have c: "dataURLtoFile (finalImageUrl \<lparr>finalImageUrl = gif_data_url, res_debugImageUrl = None,
        finalPrompt = Some ''prompt''\<rparr>) (generated_scene_name 1700000000123) =
      Inr \<lparr>file_name = ''generated-scene-1700000000123.jpeg'', file_type = ''image/gif'',
           file_bytes = gif_bytes\<rparr>"
    using gif_converted by simp
  have 1: "sceneImage (app (handleDoorDrop (service_returns gif_data_url) 1700000000123 
       sample_pos sample_rel dragging_world)) =
     Some \<lparr>file_name = ''generated-scene-1700000000123.jpeg'', file_type = ''image/gif'',
           file_bytes = gif_bytes\<rparr>"
    using A [THEN conjunct1, rule_format, OF conjI [OF g c]] .
  have 2: "sceneImage (app (handleDoorDrop (\<lambda>req. Inl (Error ''quota exceeded'')) 1700000000123 
       sample_pos sample_rel dragging_world)) = sceneImage (app dragging_world) \<and>
     error (app (handleDoorDrop (\<lambda>req. Inl (Error ''quota exceeded'')) 1700000000123 
       sample_pos sample_rel dragging_world)) =
     Some (''Failed to generate the image. '' @ errorMessage (Error ''quota exceeded''))"
    using B [THEN conjunct2, THEN conjunct1, rule_format, of "Error ''quota exceeded''"] by simp
  have 3: "isLoading (app (handleDoorDrop (service_returns gif_data_url) 1700000000123 
       sample_pos sample_rel dragging_world)) = False"
    using A by (simp only:)
  show ?thesis
    using p 1 2 3 by (simp add: dragging_world_scene)
qed

text \<open>
  The claim as stated (a resolved call replaces the scene image) fails when the service
  resolves to a URL that is not a data URL: the scene image is still the room photo, and
  the error message is set.
\<close>

theorem handleDoorDrop_unconverted_counterexample:
  "doorImageFile (app dragging_world) \<noteq> None \<and> sceneImage (app dragging_world) \<noteq> None \<and>
   selectedDoor (app dragging_world) \<noteq> None \<and>
   service_returns ''https://example.com/scene.jpeg''
       (the (door_drop_request (app dragging_world) sample_rel)) =
     Inr \<lparr>finalImageUrl = ''https://example.com/scene.jpeg'', res_debugImageUrl = None,
          finalPrompt = Some ''prompt''\<rparr> \<and>
   sceneImage (app (handleDoorDrop (service_returns ''https://example.com/scene.jpeg'') 1700000000123 
       sample_pos sample_rel dragging_world)) = Some room_photo \<and>
   error (app (handleDoorDrop (service_returns ''https://example.com/scene.jpeg'') 1700000000123 
       sample_pos sample_rel dragging_world)) =
     Some ''Failed to generate the image. Invalid data URL''"
proof -
  have h: "handleDoorDrop (service_returns ''https://example.com/scene.jpeg'') 1700000000123 
       sample_pos sample_rel dragging_world =
     handleDoorDrop_settle 1700000000123
       (Inr \<lparr>finalImageUrl = ''https://example.com/scene.jpeg'', res_debugImageUrl = None,
          finalPrompt = Some ''prompt''\<rparr>)
       (handleDoorDrop_call sample_pos sample_rel dragging_world)"
    by (simp add: handleDoorDrop_def dragging_world_request service_returns_def)
  have s: "sceneImage (app (handleDoorDrop_call sample_pos sample_rel dragging_world)) = Some room_photo"
    by (simp add: handleDoorDrop_call_Some [OF dragging_world_request] dragging_world_scene)
  show ?thesis
    unfolding h handleDoorDrop_settle_unconverted [OF https_url_refused']
    using s by (simp add: drop_finally_sel drop_catch_sel dragging_world_present service_returns_def)
qed

subsection \<open>Selecting a predefined door\<close>

lemma first_door_sel:
  "imageUrl first_door = ''/assets/door-1.jpg''" "door_name first_door = ''Classic Oak Panel''"
  "door_id first_door = Num 1"
  by (simp_all add: first_door_def predefinedDoors_def)

lemma second_door_sel:
  "imageUrl second_door = ''/assets/door-2.jpg''" "door_name second_door = ''Modern Steel Gray''"
  "door_id second_door = Num 2"
  by (simp_all add: second_door_def predefinedDoors_def)

lemma first_door_fileName: "door_fileName first_door = ''door-1.jpg''"
  unfolding door_fileName_def first_door_sel by code_simp

lemma door_1_fileType: "file_type_option (door_fileType door_1_blob) = ''image/jpeg''"
  by code_simp

text \<open>
  C5: \<open>handleSelectPredefinedDoor\<close> fetches the URL of the door. When the response is ok
  and its body is read, \<open>doorImageFile\<close> is the file made of the body and \<open>selectedDoor\<close>
  is the door; the type of that file is what the File constructor makes of the type of
  the body, or of \<open>image/jpeg\<close> when the body has none. When \<open>fetch\<close> rejects, when the
  response is not ok, or when reading the body fails, the error message is set and
  \<open>selectedDoor\<close> and \<open>doorImageFile\<close> are as before.
  In every case \<open>isLoading\<close> is \<open>false\<close> when the handler has finished.
\<close>

theorem handleSelectPredefinedDoor_outcome:
  fixes fetch d w
  defines "H \<equiv> handleSelectPredefinedDoor fetch d w"
  shows
    "fetched H = fetched w @ [imageUrl d] \<and>
     (\<forall>resp b. fetch (imageUrl d) = Inr resp \<and> resp_ok resp \<and> resp_blob resp = Inr b \<longrightarrow>
        doorImageFile (app H) =
          Some \<lparr>file_name = door_fileName d,
                file_type = file_type_option (door_fileType b),
                file_bytes = blob_bytes b\<rparr> \<and>
        selectedDoor (app H) = Some d) \<and>
     (\<forall>e. fetch (imageUrl d) = Inl e \<longrightarrow>
        error (app H) =
          Some (''Could not load the selected door. Details: '' @ errorMessage e) \<and>
        selectedDoor (app H) = selectedDoor (app w) \<and>
        doorImageFile (app H) = doorImageFile (app w)) \<and>
     (\<forall>resp. fetch (imageUrl d) = Inr resp \<and> \<not> resp_ok resp \<longrightarrow>
        error (app H) =
          Some (''Could not load the selected door. Details: Failed to load door image: '' @
                door_name d) \<and>
        selectedDoor (app H) = selectedDoor (app w) \<and>
        doorImageFile (app H) = doorImageFile (app w)) \<and>
     (\<forall>resp e. fetch (imageUrl d) = Inr resp \<and> resp_ok resp \<and> resp_blob resp = Inl e \<longrightarrow>
        error (app H) =
          Some (''Could not load the selected door. Details: '' @ errorMessage e) \<and>
        selectedDoor (app H) = selectedDoor (app w) \<and>
        doorImageFile (app H) = doorImageFile (app w)) \<and>
     isLoading (app H) = False"
  unfolding H_def handleSelectPredefinedDoor_def
  by (intro conjI allI impI)
     (simp_all add: handleSelectPredefinedDoor_settle_finished
        handleSelectPredefinedDoor_settle_rejected handleSelectPredefinedDoor_settle_not_ok
        handleSelectPredefinedDoor_settle_no_blob handleSelectPredefinedDoor_settle_blob
        handleSelectPredefinedDoor_call_sel select_finally_sel select_catch_sel)

theorem handleSelectPredefinedDoor_outcome_witness:
  "asset_server (imageUrl first_door) =
     Inr \<lparr>resp_ok = True, resp_blob = Inr door_1_blob\<rparr> \<and>
   doorImageFile (app (handleSelectPredefinedDoor asset_server first_door
       initial_world)) =
     Some \<lparr>file_name = ''door-1.jpg'', file_type = ''image/jpeg'',
           file_bytes = [255, 216, 255, 224]\<rparr> \<and>
   selectedDoor (app (handleSelectPredefinedDoor asset_server first_door
       initial_world)) = Some first_door \<and>
   asset_server (imageUrl second_door) =
     Inr \<lparr>resp_ok = False, resp_blob = Inr \<lparr>blob_type = ''text/html'', blob_bytes = []\<rparr>\<rparr> \<and>
   error (app (handleSelectPredefinedDoor asset_server second_door initial_world)) =
     Some ''Could not load the selected door. Details: Failed to load door image: Modern Steel Gray'' \<and>
   selectedDoor (app (handleSelectPredefinedDoor asset_server second_door
       initial_world)) = None \<and>
   error (app (handleSelectPredefinedDoor (\<lambda>url. Inl (Error ''Failed to fetch''))
       second_door initial_world)) =
     Some ''Could not load the selected door. Details: Failed to fetch'' \<and>
   isLoading (app (handleSelectPredefinedDoor asset_server first_door
       initial_world)) = False"
proof -
  note A = handleSelectPredefinedDoor_outcome [of asset_server first_door initial_world]
  note B = handleSelectPredefinedDoor_outcome [of asset_server second_door initial_world]
  note C = handleSelectPredefinedDoor_outcome [of "\<lambda>url. Inl (Error ''Failed to fetch'')"
      second_door initial_world]
  have a: "asset_server (imageUrl first_door) =
      Inr \<lparr>resp_ok = True, resp_blob = Inr door_1_blob\<rparr>"
    by (simp add: first_door_sel asset_server_def)
  have b: "asset_server (imageUrl second_door) =
      Inr \<lparr>resp_ok = False, resp_blob = Inr \<lparr>blob_type = ''text/html'', blob_bytes = []\<rparr>\<rparr>"
    by (simp add: second_door_sel asset_server_def)
  have i: "selectedDoor (app initial_world) = None"
    by (simp add: initial_world_def initial_state_def)
  have 1: "doorImageFile (app (handleSelectPredefinedDoor asset_server first_door
         initial_world)) =
       Some \<lparr>file_name = door_fileName first_door,
             file_type = file_type_option (door_fileType door_1_blob),
             file_bytes = blob_bytes door_1_blob\<rparr> \<and>
     selectedDoor (app (handleSelectPredefinedDoor asset_server first_door
         initial_world)) = Some first_door"
    using A [THEN conjunct2, THEN conjunct1, rule_format,
        of "\<lparr>resp_ok = True, resp_blob = Inr door_1_blob\<rparr>" door_1_blob] a
    by simp
  have 2: "error (app (handleSelectPredefinedDoor asset_server second_door
         initial_world)) =
       Some (''Could not load the selected door. Details: Failed to load door image: '' @
             door_name second_door) \<and>
     selectedDoor (app (handleSelectPredefinedDoor asset_server second_door
         initial_world)) = selectedDoor (app initial_world)"
    using B [THEN conjunct2, THEN conjunct2, THEN conjunct2, THEN conjunct1, rule_format,
        of "\<lparr>resp_ok = False, resp_blob = Inr \<lparr>blob_type = ''text/html'', blob_bytes = []\<rparr>\<rparr>"] b
    by simp
  have 3: "error (app (handleSelectPredefinedDoor (\<lambda>url. Inl (Error ''Failed to fetch''))
         second_door initial_world)) =
       Some (''Could not load the selected door. Details: '' @ errorMessage (Error ''Failed to fetch''))"
    using C [THEN conjunct2, THEN conjunct2, THEN conjunct1, rule_format,
        of "Error ''Failed to fetch''"]
    by simp
  have 4: "isLoading (app (handleSelectPredefinedDoor asset_server first_door
       initial_world)) = False"
    using A by (simp only:)
  show ?thesis
    using a b 1 2 3 4
    by (simp add: first_door_fileName second_door_sel i door_1_fileType)
       (simp add: door_1_blob_def)
qed

subsection \<open>The box of the scene image\<close>

text \<open>
  For an image with positive natural sizes in a drop zone of positive size, the box is the
  largest one with the image's aspect ratio that fits the drop zone, centred in it; the
  drop is forwarded exactly when the touch point is inside the box, and the percentages
  are then between 0 and 100.
\<close>

lemma rendered_box_loaded:
  assumes "0 < nw" and "0 < nh" and "0 < cw" and "0 < ch"
  defines "a \<equiv> (of_nat nw :: rat) / of_nat nh"
  defines "rw \<equiv> (if cw / ch < a then cw else ch * a)"
  defines "rh \<equiv> (if cw / ch < a then cw / a else ch)"
  shows "rendered_box \<lparr>rect_left = l, rect_top = tp, rect_width = Num cw, rect_height = Num ch\<rparr>
            \<lparr>naturalWidth = nw, naturalHeight = nh\<rparr> =
           (Num rw, Num rh, Num ((cw - rw) / 2), Num ((ch - rh) / 2))"
    and "0 < rw" and "rw \<le> cw" and "0 < rh" and "rh \<le> ch" and "rw / rh = a"
    and "rw = cw \<or> rh = ch"
proof -
  have a: "0 < a" using assms by (simp add: a_def)
  show "rendered_box \<lparr>rect_left = l, rect_top = tp, rect_width = Num cw, rect_height = Num ch\<rparr>
            \<lparr>naturalWidth = nw, naturalHeight = nh\<rparr> =
           (Num rw, Num rh, Num ((cw - rw) / 2), Num ((ch - rh) / 2))"
    using assms(1-4) a by (simp add: rendered_box_def jgt_def a_def rw_def rh_def)
  show "0 < rw" using assms(3,4) a by (simp add: rw_def)
  show "0 < rh" using assms(3,4) a by (simp add: rh_def)
  show "rw \<le> cw" using assms(3,4) a by (simp add: rw_def field_simps)
  show "rh \<le> ch" using assms(3,4) a by (simp add: rh_def field_simps)
  show "rw / rh = a" using assms(3,4) a by (simp add: rw_def rh_def)
  show "rw = cw \<or> rh = ch" by (simp add: rw_def rh_def)
qed


lemma touch_drop_in_box:
  assumes "rendered_box R I = (Num rw, Num rh, Num ox, Num oy)" and "0 < rw" and "0 < rh"
    and "rect_left R = Num l" and "rect_top R = Num tp"
  shows "touch_drop \<lparr>pos_x = Num tx, pos_y = Num ty\<rparr> R I =
           (if 0 \<le> tx - l - ox \<and> tx - l - ox \<le> rw \<and> 0 \<le> ty - tp - oy \<and> ty - tp - oy \<le> rh
            then Some (\<lparr>pos_x = Num (tx - l), pos_y = Num (ty - tp)\<rparr>,
                       \<lparr>xPercent = Num ((tx - l - ox) / rw * 100),
                        yPercent = Num ((ty - tp - oy) / rh * 100)\<rparr>)
            else None)"
  using assms by (auto simp add: touch_drop_def jgt_def)

lemma percent_in_range:
  fixes v r :: rat
  assumes "0 \<le> v" and "v \<le> r" and "0 < r"
  shows "0 \<le> v / r * 100 \<and> v / r * 100 \<le> 100"
  using assms by (simp add: field_simps)

lemma touch_drop_unloaded:
  "touch_drop touch_centre drop_zone_rect unloaded_img =
     Some (sample_pos, \<lparr>xPercent = NaN, yPercent = Num 50\<rparr>)"
  by (simp add: touch_drop_def rendered_box_def touch_centre_def drop_zone_rect_def
        unloaded_img_def sample_pos_def jgt_def)

text \<open>
  C1 fails on the code for an image that is not decoded: \<open>naturalWidth\<close> and
  \<open>naturalHeight\<close> are zero, the aspect ratio is \<open>0 / 0\<close>, the rendered width and the
  horizontal offset are \<open>NaN\<close>, and no comparison of the test on \<open>imageX\<close> holds. The drop in
  the middle of the drop zone is forwarded, and the service is called with \<open>xPercent = NaN\<close>.
\<close>

theorem handleTouchEnd_unloaded_image:
  "naturalWidth unloaded_img = 0 \<and> naturalHeight unloaded_img = 0 \<and>
   rendered_box drop_zone_rect unloaded_img = (NaN, Num 300, NaN, Num 0) \<and>
   api_calls (handleTouchEnd touch_centre (Some drop_zone_rect) (Some unloaded_img)
       dragging_world) =
     [\<lparr>req_doorImageFile = door_photo, req_doorName = ''my-door.png'',
       req_sceneImage = room_photo, req_sceneName = ''room.jpg'',
       req_relativePosition = \<lparr>xPercent = NaN, yPercent = Num 50\<rparr>\<rparr>]"
proof -
  have r: "rendered_box drop_zone_rect unloaded_img = (NaN, Num 300, NaN, Num 0)"
    by (simp add: rendered_box_def drop_zone_rect_def unloaded_img_def jgt_def)
  have d: "isTouchDragging (app dragging_world)" "api_calls dragging_world = []"
    by (simp_all add: dragging_world_def initial_world_def)
  have n: "naturalWidth unloaded_img = 0" "naturalHeight unloaded_img = 0"
    by (simp_all add: unloaded_img_def)
  have "api_calls (handleTouchEnd touch_centre (Some drop_zone_rect) (Some unloaded_img)
       dragging_world) =
     api_calls (handleDoorDrop_call sample_pos \<lparr>xPercent = NaN, yPercent = Num 50\<rparr> dragging_world)"
    by (simp add: handleTouchEnd_def touch_drop_unloaded d Let_def)
  then have c: "api_calls (handleTouchEnd touch_centre (Some drop_zone_rect) (Some unloaded_img)
       dragging_world) =
     [\<lparr>req_doorImageFile = door_photo, req_doorName = ''my-door.png'',
       req_sceneImage = room_photo, req_sceneName = ''room.jpg'',
       req_relativePosition = \<lparr>xPercent = NaN, yPercent = Num 50\<rparr>\<rparr>]"
    by (simp add: handleDoorDrop_call_Some [OF dragging_world_request] d)
  show ?thesis
    using n r c by (intro conjI)
qed

subsection \<open>The end of a touch drag\<close>

text \<open>
  C7: when \<open>handleTouchEnd\<close> runs while a touch drag is active, \<open>isTouchDragging\<close> and
  \<open>isHoveringDropZone\<close> are \<open>false\<close> and \<open>touchGhostPosition\<close> and \<open>touchOrbPosition\<close> are
  \<open>null\<close> afterwards, whatever is under the touch point.
\<close>

theorem handleTouchEnd_idle:
  "isTouchDragging (app w) \<Longrightarrow>
   isTouchDragging (app (handleTouchEnd touch dropZone img w)) = False \<and>
   touchGhostPosition (app (handleTouchEnd touch dropZone img w)) = None \<and>
   touchOrbPosition (app (handleTouchEnd touch dropZone img w)) = None \<and>
   isHoveringDropZone (app (handleTouchEnd touch dropZone img w)) = False"
  by (simp add: handleTouchEnd_def Let_def)

theorem handleTouchEnd_idle_witness:
  "isTouchDragging (app dragging_world) \<and>
   isTouchDragging (app (handleTouchEnd touch_centre (Some drop_zone_rect) (Some loaded_img)
       dragging_world)) = False \<and>
   touchGhostPosition (app (handleTouchEnd touch_centre (Some drop_zone_rect) (Some loaded_img)
       dragging_world)) = None \<and>
   touchOrbPosition (app (handleTouchEnd touch_centre None None dragging_world)) = None \<and>
   isHoveringDropZone (app (handleTouchEnd touch_centre None None dragging_world)) = False"
proof -
  have d: "isTouchDragging (app dragging_world)"
    by (simp add: dragging_world_def)
  show ?thesis
    using d handleTouchEnd_idle [OF d, of touch_centre "Some drop_zone_rect" "Some loaded_img"]
      handleTouchEnd_idle [OF d, of touch_centre None None]
    by simp
qed

subsection \<open>Evaluating a run\<close>

lemmas run_defs =
  handleDoorImageUpload_def createObjectURL_def render_def render_body_def commit_def
  render_discarded_def use_scene_effect_def
  use_door_effect_def use_loading_effect_def scene_url_cleanup_def door_url_cleanup_def
  revokeObjectURL_def loading_effect_def loading_effect_cleanup_def tick_def
  handleDoorDrop_call_def door_drop_request_def initial_world_def initial_state_def
  handleSelectPredefinedDoor_call_def handleSelectPredefinedDoor_settle_def
  select_finally_def select_catch_def handleChangeDoor_def unmount_def
  loadingMessages_def startsWith_def Let_def

subsection \<open>The loading message\<close>














subsection \<open>The selected door\<close>

lemma door_known_frame:
  assumes "door_known w" and "selectedDoor (app w') = selectedDoor (app w)"
    and "doorImageFile (app w') = doorImageFile (app w)"
    and "set (object_urls w) \<subseteq> set (object_urls w')"
  shows "door_known w'"
  using assms by (auto simp add: door_known_def split: option.splits)

lemma door_known_None: "selectedDoor (app w) = None \<Longrightarrow> door_known w"
  by (simp add: door_known_def)

lemma door_known_predefined:
  "selectedDoor (app w) = Some d \<Longrightarrow> d \<in> set predefinedDoors \<Longrightarrow> door_known w"
  by (simp add: door_known_def)

lemma step_door_known:
  assumes "door_known w"
  shows "door_known (step e w)"
proof (cases e)
  case (DoorImageUpload f now c)
  show ?thesis
  proof (cases c)
    case (Inl err)
    then show ?thesis
      using assms DoorImageUpload handleDoorImageUpload_thrown [of f now err w]
      by (auto intro: door_known_frame)
  next
    case (Inr suffix)
    then show ?thesis
      using DoorImageUpload handleDoorImageUpload_created [of f now suffix w]
      by (simp add: door_known_def startsWith_def)
  qed
next
  case (SelectDoorCard i)
  then show ?thesis
    using assms handleSelectPredefinedDoor_call_frame [of "predefinedDoors ! i" w]
    by (auto intro: door_known_frame)
next
  case (SelectDoorSettled i r)
  show ?thesis
  proof (cases "i < length predefinedDoors")
    case False
    then show ?thesis using assms SelectDoorSettled by simp
  next
    case True
    then have m: "predefinedDoors ! i \<in> set predefinedDoors" by simp
    show ?thesis
      using assms SelectDoorSettled True m
        handleSelectPredefinedDoor_settle_frame [of "predefinedDoors ! i" r w]
      by (auto intro: door_known_frame door_known_predefined)
  qed
next
  case (DoorDrop p r)
  then show ?thesis
    using assms handleDoorDrop_call_frame [of p r w] by (auto intro: door_known_frame)
next
  case (DoorDropSettled now r)
  then show ?thesis
    using assms handleDoorDrop_settle_frame [of now r w] by (auto intro: door_known_frame)
next
  case (SceneFileSelect f)
  then show ?thesis using assms by (auto intro: door_known_frame)
next
  case Reset
  then show ?thesis by (simp add: door_known_None handleReset_def)
next
  case ChangeDoor
  then show ?thesis by (simp add: door_known_None handleChangeDoor_def)
next
  case ChangeScene
  then show ?thesis using assms by (auto intro: door_known_frame simp: handleChangeScene_def)
next
  case (SetAddModalOpen b)
  then show ?thesis using assms by (auto intro: door_known_frame)
next
  case (SetDebugModalOpen b)
  then show ?thesis using assms by (auto intro: door_known_frame)
next
  case (TouchStart t)
  then show ?thesis
    using assms handleTouchStart_frame [of t w] by (auto intro: door_known_frame)
next
  case (TouchMove t dz)
  then show ?thesis
    using assms handleTouchMove_frame [of t dz w] by (auto intro: door_known_frame)
next
  case (TouchEnd t dz img)
  then show ?thesis
    using assms handleTouchEnd_frame [of t dz img w] by (auto intro: door_known_frame)
next
  case Tick
  then show ?thesis
    using assms tick_frame [of w] by (auto intro: door_known_frame)
next
  case (Render suffix)
  then show ?thesis
    using assms render_frame [of suffix w] render_object_urls [of suffix w]
    by (auto intro!: door_known_frame [of w] split: option.splits)
next
  case (RenderDiscarded suffix)
  then show ?thesis
    using assms render_discarded_frame [of suffix w]
    by (auto intro!: door_known_frame [of w])
qed

lemma run_door_known: "door_known w \<Longrightarrow> door_known (run evs w)"
  by (induction evs arbitrary: w) (simp_all add: step_door_known)

lemma initial_door_known: "door_known initial_world"
  by (simp add: door_known_def initial_world_def initial_state_def)

lemma predefined_urls:
  "map imageUrl predefinedDoors =
     [''/assets/door-1.jpg'', ''/assets/door-2.jpg'', ''/assets/door-3.png'',
      ''/assets/door-4.jpg'', ''/assets/door-5.jpg'']"
  by (simp add: predefinedDoors_def)

lemma upload_run_facts:
  "selectedDoor (app (run upload_run initial_world)) = Some uploaded_door"
  "doorImageFile (app (run upload_run initial_world)) = Some door_photo"
  "object_urls (run upload_run initial_world) = [(imageUrl uploaded_door, door_photo)]"
  by (simp_all add: upload_run_def uploaded_door_def door_photo_def run_defs)

lemma select_run_facts:
  "selectedDoor (app (run select_run initial_world)) = Some first_door"
  "object_urls (run select_run initial_world) = []"
  by (simp_all add: select_run_def first_door_def asset_server_def predefinedDoors_def run_defs)

text \<open>
  C4: a \<open>Door\<close> is its identifier, its name and its image URL, and nothing else. After
  every run of the application, the image URL of the selected door is one of the five
  paths of the predefined doors, or it starts with \<open>blob:\<close> and is an object URL that
  \<open>URL.createObjectURL\<close> returned for the uploaded file in \<open>doorImageFile\<close>.
\<close>

theorem selected_door_url:
  "(\<forall>d :: door. d = \<lparr>door_id = door_id d, door_name = door_name d, imageUrl = imageUrl d\<rparr>) \<and>
   map imageUrl predefinedDoors =
     [''/assets/door-1.jpg'', ''/assets/door-2.jpg'', ''/assets/door-3.png'',
      ''/assets/door-4.jpg'', ''/assets/door-5.jpg''] \<and>
   (\<forall>d. selectedDoor (app (run evs initial_world)) = Some d \<longrightarrow>
      imageUrl d \<in> set (map imageUrl predefinedDoors) \<or>
      (startsWith (imageUrl d) ''blob:'' \<and>
       (\<exists>f. doorImageFile (app (run evs initial_world)) = Some f \<and>
            (imageUrl d, f) \<in> set (object_urls (run evs initial_world)))))"
proof (intro conjI allI impI)
  fix d :: door
  show "d = \<lparr>door_id = door_id d, door_name = door_name d, imageUrl = imageUrl d\<rparr>" by simp
next
  show "map imageUrl predefinedDoors =
     [''/assets/door-1.jpg'', ''/assets/door-2.jpg'', ''/assets/door-3.png'',
      ''/assets/door-4.jpg'', ''/assets/door-5.jpg'']"
    by (rule predefined_urls)
next
  fix d
  assume s: "selectedDoor (app (run evs initial_world)) = Some d"
  have "door_known (run evs initial_world)"
    by (rule run_door_known) (rule initial_door_known)
  then show "imageUrl d \<in> set (map imageUrl predefinedDoors) \<or>
      (startsWith (imageUrl d) ''blob:'' \<and>
       (\<exists>f. doorImageFile (app (run evs initial_world)) = Some f \<and>
            (imageUrl d, f) \<in> set (object_urls (run evs initial_world))))"
    using s by (auto simp add: door_known_def split: option.splits)
qed

theorem selected_door_url_witness:
  "selectedDoor (app (run upload_run initial_world)) = Some uploaded_door \<and>
   imageUrl uploaded_door \<notin> set (map imageUrl predefinedDoors) \<and>
   startsWith (imageUrl uploaded_door) ''blob:'' \<and>
   doorImageFile (app (run upload_run initial_world)) = Some door_photo \<and>
   (imageUrl uploaded_door, door_photo) \<in> set (object_urls (run upload_run initial_world)) \<and>
   selectedDoor (app (run select_run initial_world)) = Some first_door \<and>
   imageUrl first_door \<in> set (map imageUrl predefinedDoors)"
proof -
  note A = selected_door_url [of upload_run, THEN conjunct2, THEN conjunct2, rule_format,
      OF upload_run_facts(1)]
  note B = selected_door_url [of select_run, THEN conjunct2, THEN conjunct2, rule_format,
      OF select_run_facts(1)]
  have n: "imageUrl uploaded_door \<notin> set (map imageUrl predefinedDoors)"
    by (simp add: predefined_urls uploaded_door_def)
  have 1: "startsWith (imageUrl uploaded_door) ''blob:'' \<and>
      (\<exists>f. doorImageFile (app (run upload_run initial_world)) = Some f \<and>
           (imageUrl uploaded_door, f) \<in> set (object_urls (run upload_run initial_world)))"
    using A n by blast
  have 2: "imageUrl first_door \<in> set (map imageUrl predefinedDoors)"
    using B select_run_facts(2) by auto
  show ?thesis
    using 1 2 n upload_run_facts select_run_facts(1) by auto
qed

subsection \<open>Releasing object URLs\<close>

lemma only_blobs_frame:
  "only_blobs_revoked w \<Longrightarrow> revoked w' = revoked w \<Longrightarrow> scene_dep w' = scene_dep w \<Longrightarrow>
   only_blobs_revoked w'"
  by (simp add: only_blobs_revoked_def)

lemma render_only_blobs:
  assumes "only_blobs_revoked w"
  shows "only_blobs_revoked (render suffix w)"
proof -
  have s: "truthy (scene_dep w) \<Longrightarrow> startsWith (the (scene_dep w)) ''blob:''"
    using assms by (cases "scene_dep w") (simp_all add: only_blobs_revoked_def)
  have "list_all (\<lambda>u. startsWith u ''blob:'') (revoked (render suffix w))"
    using assms s by (simp add: render_revoked only_blobs_revoked_def Let_def)
  moreover have "case scene_dep (render suffix w) of None \<Rightarrow> True
      | Some u \<Rightarrow> startsWith u ''blob:''"
    by (simp add: render_scene_dep startsWith_def split: option.splits)
  ultimately show ?thesis by (simp add: only_blobs_revoked_def)
qed

lemma unmount_revoked:
  "revoked (unmount w) =
     (let r1 = (if truthy (scene_dep w) then revoked w @ [the (scene_dep w)] else revoked w)
      in if truthy (door_dep w) \<and> startsWith (the (door_dep w)) ''blob:''
         then r1 @ [the (door_dep w)] else r1)"
  by (simp add: unmount_def loading_effect_cleanup_def door_url_cleanup_def
        scene_url_cleanup_def revokeObjectURL_def Let_def)

lemma unmount_only_blobs:
  assumes "only_blobs_revoked w"
  shows "list_all (\<lambda>u. startsWith u ''blob:'') (revoked (unmount w))"
proof -
  have s: "truthy (scene_dep w) \<Longrightarrow> startsWith (the (scene_dep w)) ''blob:''"
    using assms by (cases "scene_dep w") (simp_all add: only_blobs_revoked_def)
  show ?thesis
    using assms s by (simp add: unmount_revoked only_blobs_revoked_def Let_def)
qed

lemma step_only_blobs:
  assumes "only_blobs_revoked w"
  shows "only_blobs_revoked (step e w)"
proof (cases e)
  case (DoorImageUpload f now c)
  then show ?thesis
    using assms handleDoorImageUpload_frame [of f now c w] by (auto intro: only_blobs_frame)
next
  case (SelectDoorCard i)
  then show ?thesis
    using assms handleSelectPredefinedDoor_call_frame [of "predefinedDoors ! i" w]
    by (auto intro: only_blobs_frame)
next
  case (SelectDoorSettled i r)
  then show ?thesis
    using assms handleSelectPredefinedDoor_settle_frame [of "predefinedDoors ! i" r w]
    by (auto intro: only_blobs_frame)
next
  case (DoorDrop p r)
  then show ?thesis
    using assms handleDoorDrop_call_frame [of p r w] by (auto intro: only_blobs_frame)
next
  case (DoorDropSettled now r)
  then show ?thesis
    using assms handleDoorDrop_settle_frame [of now r w] by (auto intro: only_blobs_frame)
next
  case (SceneFileSelect f)
  then show ?thesis using assms by (auto intro: only_blobs_frame)
next
  case Reset
  then show ?thesis using assms by (auto intro: only_blobs_frame)
next
  case ChangeDoor
  then show ?thesis using assms by (auto intro: only_blobs_frame)
next
  case ChangeScene
  then show ?thesis using assms by (auto intro: only_blobs_frame)
next
  case (SetAddModalOpen b)
  then show ?thesis using assms by (auto intro: only_blobs_frame)
next
  case (SetDebugModalOpen b)
  then show ?thesis using assms by (auto intro: only_blobs_frame)
next
  case (TouchStart t)
  then show ?thesis
    using assms handleTouchStart_frame [of t w] by (auto intro: only_blobs_frame)
next
  case (TouchMove t dz)
  then show ?thesis
    using assms handleTouchMove_frame [of t dz w] by (auto intro: only_blobs_frame)
next
  case (TouchEnd t dz img)
  then show ?thesis
    using assms handleTouchEnd_frame [of t dz img w] by (auto intro: only_blobs_frame)
next
  case Tick
  then show ?thesis
    using assms tick_frame [of w] by (auto intro: only_blobs_frame)
next
  case (Render suffix)
  then show ?thesis using assms by (simp add: render_only_blobs)
next
  case (RenderDiscarded suffix)
  then show ?thesis
    using assms render_discarded_frame [of suffix w] by (auto intro: only_blobs_frame)
qed

lemma run_only_blobs: "only_blobs_revoked w \<Longrightarrow> only_blobs_revoked (run evs w)"
  by (induction evs arbitrary: w) (simp_all add: step_only_blobs)

lemma initial_only_blobs: "only_blobs_revoked initial_world"
  by (simp add: only_blobs_revoked_def initial_world_def)

lemma predefined_not_blob: "d \<in> set predefinedDoors \<Longrightarrow> \<not> startsWith (imageUrl d) ''blob:''"
  by (auto simp add: predefinedDoors_def startsWith_def)

lemma change_run_facts:
  "scene_dep (run change_run initial_world) = Some ''blob:http://localhost:5173/0002''"
  "door_dep (run change_run initial_world) = Some ''blob:http://localhost:5173/1b9d6bcd''"
  "scene_dep (render ''http://localhost:5173/0003'' (run change_run initial_world)) =
     Some ''blob:http://localhost:5173/0003''"
  "door_dep (render ''http://localhost:5173/0003'' (run change_run initial_world)) = None"
  "revoked (run change_run initial_world) = []"
  by (simp_all add: change_run_def ready_run_def door_photo_def room_photo_def run_defs)

lemma shown_run_facts:
  "door_dep (run shown_run initial_world) = Some ''/assets/door-1.jpg''"
  "scene_dep (run shown_run initial_world) = None"
  "revoked (run shown_run initial_world) = []"
  "revoked (unmount (run shown_run initial_world)) = []"
  by (simp_all add: shown_run_def select_run_def asset_server_def predefinedDoors_def run_defs)

text \<open>
  What the two effects do release: at a render that is committed, when the URL that the
  scene effect holds differs from the new \<open>sceneImageUrl\<close>, the old one is revoked; when
  the URL that the door effect holds starts with \<open>blob:\<close> and differs from the new
  \<open>doorImageUrl\<close>, the old one is revoked; unmounting revokes both in the same way. The
  cleanup of the door effect revokes nothing that does not start with \<open>blob:\<close>, and in
  every run, unmounted or not, every revoked URL starts with \<open>blob:\<close>, so none of the
  paths of the predefined doors is ever revoked.
\<close>

lemma committed_urls_released:
  "(scene_dep w = Some u \<and> u \<noteq> [] \<and> scene_dep (render suffix w) \<noteq> Some u \<longrightarrow>
      u \<in> set (revoked (render suffix w))) \<and>
   (door_dep w = Some u \<and> startsWith u ''blob:'' \<and> door_dep (render suffix w) \<noteq> Some u \<longrightarrow>
      u \<in> set (revoked (render suffix w))) \<and>
   scene_dep (render suffix w) =
     (case sceneImage (app w) of None \<Rightarrow> None | Some f \<Rightarrow> Some (''blob:'' @ suffix)) \<and>
   door_dep (render suffix w) = map_option imageUrl (selectedDoor (app w)) \<and>
   (scene_dep w = Some u \<and> u \<noteq> [] \<longrightarrow> u \<in> set (revoked (unmount w))) \<and>
   (door_dep w = Some u \<and> startsWith u ''blob:'' \<longrightarrow> u \<in> set (revoked (unmount w))) \<and>
   (\<forall>v \<in> set (revoked (door_url_cleanup doorImageUrl w)).
      v \<in> set (revoked w) \<or> startsWith v ''blob:'') \<and>
   (\<forall>v \<in> set (revoked (run evs initial_world)). startsWith v ''blob:'') \<and>
   (\<forall>v \<in> set (revoked (unmount (run evs initial_world))). startsWith v ''blob:'') \<and>
   (\<forall>d \<in> set predefinedDoors.
      imageUrl d \<notin> set (revoked (run evs initial_world)) \<and>
      imageUrl d \<notin> set (revoked (unmount (run evs initial_world))))"
proof -
  have i: "only_blobs_revoked (run evs initial_world)"
    by (rule run_only_blobs) (rule initial_only_blobs)
  then have r: "\<forall>v \<in> set (revoked (run evs initial_world)). startsWith v ''blob:''"
    by (simp add: only_blobs_revoked_def list_all_iff)
  have m: "\<forall>v \<in> set (revoked (unmount (run evs initial_world))). startsWith v ''blob:''"
    using unmount_only_blobs [OF i] by (simp add: list_all_iff)
  have 1: "scene_dep w = Some u \<and> u \<noteq> [] \<and> scene_dep (render suffix w) \<noteq> Some u \<longrightarrow>
      u \<in> set (revoked (render suffix w))"
    by (auto simp add: render_revoked Let_def)
  have 2: "door_dep w = Some u \<and> startsWith u ''blob:'' \<and> door_dep (render suffix w) \<noteq> Some u \<longrightarrow>
      u \<in> set (revoked (render suffix w))"
    by (auto simp add: render_revoked Let_def startsWith_def)
  have 3: "scene_dep w = Some u \<and> u \<noteq> [] \<longrightarrow> u \<in> set (revoked (unmount w))"
    by (auto simp add: unmount_revoked Let_def)
  have 4: "door_dep w = Some u \<and> startsWith u ''blob:'' \<longrightarrow> u \<in> set (revoked (unmount w))"
    by (auto simp add: unmount_revoked Let_def startsWith_def)
  have 5: "\<forall>v \<in> set (revoked (door_url_cleanup doorImageUrl w)).
      v \<in> set (revoked w) \<or> startsWith v ''blob:''"
    by (auto simp add: door_url_cleanup_def revokeObjectURL_def)
  have 6: "\<forall>d \<in> set predefinedDoors.
      imageUrl d \<notin> set (revoked (run evs initial_world)) \<and>
      imageUrl d \<notin> set (revoked (unmount (run evs initial_world)))"
    using r m predefined_not_blob by blast
  show ?thesis
    using 1 2 3 4 5 6 r m render_scene_dep [of suffix w] render_door_dep [of suffix w]
    by (intro conjI)
qed

lemma committed_urls_released_sample:
  "scene_dep (run change_run initial_world) = Some ''blob:http://localhost:5173/0002'' \<and>
   scene_dep (render ''http://localhost:5173/0003'' (run change_run initial_world)) \<noteq>
     Some ''blob:http://localhost:5173/0002'' \<and>
   ''blob:http://localhost:5173/0002'' \<in>
     set (revoked (render ''http://localhost:5173/0003'' (run change_run initial_world))) \<and>
   door_dep (run change_run initial_world) = Some ''blob:http://localhost:5173/1b9d6bcd'' \<and>
   door_dep (render ''http://localhost:5173/0003'' (run change_run initial_world)) = None \<and>
   ''blob:http://localhost:5173/1b9d6bcd'' \<in>
     set (revoked (render ''http://localhost:5173/0003'' (run change_run initial_world))) \<and>
   ''blob:http://localhost:5173/1b9d6bcd'' \<in> set (revoked (unmount (run change_run initial_world))) \<and>
   door_dep (run shown_run initial_world) = Some (imageUrl first_door) \<and>
   first_door \<in> set predefinedDoors \<and>
   imageUrl first_door \<notin> set (revoked (unmount (run shown_run initial_world)))"
proof -
  note A = committed_urls_released [where w = "run change_run initial_world"
      and u = "''blob:http://localhost:5173/0002''" and suffix = "''http://localhost:5173/0003''"
      and evs = shown_run and doorImageUrl = None]
  note B = committed_urls_released [where w = "run change_run initial_world"
      and u = "''blob:http://localhost:5173/1b9d6bcd''"
      and suffix = "''http://localhost:5173/0003''"
      and evs = shown_run and doorImageUrl = None]
  have b: "startsWith ''blob:http://localhost:5173/1b9d6bcd'' ''blob:''"
    by (simp add: startsWith_def)
  have f: "first_door \<in> set predefinedDoors"
    by (simp add: first_door_def predefinedDoors_def)
  have 1: "''blob:http://localhost:5173/0002'' \<in>
     set (revoked (render ''http://localhost:5173/0003'' (run change_run initial_world)))"
    using A [THEN conjunct1] change_run_facts by simp
  have 2: "''blob:http://localhost:5173/1b9d6bcd'' \<in>
     set (revoked (render ''http://localhost:5173/0003'' (run change_run initial_world)))"
    using B [THEN conjunct2, THEN conjunct1] change_run_facts b by simp
  have 3: "''blob:http://localhost:5173/1b9d6bcd'' \<in>
     set (revoked (unmount (run change_run initial_world)))"
    using B change_run_facts b by blast
  have 4: "imageUrl first_door \<notin> set (revoked (unmount (run shown_run initial_world)))"
    using A f by blast
  show ?thesis
    using 1 2 3 4 f change_run_facts shown_run_facts first_door_sel by simp
qed

lemma leak_run_facts:
  "sceneImage (app (run leak_run initial_world)) = Some room_photo"
  "object_urls (run leak_run initial_world) =
     [(''blob:http://localhost:5173/1b9d6bcd'', door_photo),
      (''blob:http://localhost:5173/0002'', room_photo),
      (''blob:http://localhost:5173/0003'', room_photo),
      (''blob:http://localhost:5173/0004'', room_photo),
      (''blob:http://localhost:5173/0005'', room_photo)]"
  "revoked (run leak_run initial_world) =
     [''blob:http://localhost:5173/0002'', ''blob:http://localhost:5173/0003'']"
  "scene_dep (run leak_run initial_world) = Some ''blob:http://localhost:5173/0005''"
  "door_dep (run leak_run initial_world) = Some ''blob:http://localhost:5173/1b9d6bcd''"
  "object_urls (unmount (run leak_run initial_world)) = object_urls (run leak_run initial_world)"
  "revoked (unmount (run leak_run initial_world)) =
     [''blob:http://localhost:5173/0002'', ''blob:http://localhost:5173/0003'',
      ''blob:http://localhost:5173/0005'', ''blob:http://localhost:5173/1b9d6bcd'']"
  by (simp_all add: leak_run_def ready_run_def run_defs)

text \<open>
  C6 fails on the code. \<open>URL.createObjectURL\<close> is called in the body of \<open>App\<close>, at every
  run of the body, and a URL is revoked only by the cleanup of an effect that was
  committed with it. In the run below the scene is rendered four times and the third of
  these renders is not committed: the scene image URL changes from one render to the
  next, the URLs of the committed renders are revoked, each at the next commit or at
  unmount, and the URL of the render that was not committed is never revoked, not even
  at unmount.
\<close>

theorem object_url_not_released:
  "leak_run =
     ready_run @
     [Render ''http://localhost:5173/0003'',
      RenderDiscarded ''http://localhost:5173/0004'',
      Render ''http://localhost:5173/0005''] \<and>
   sceneImage (app (run leak_run initial_world)) = Some room_photo \<and>
   object_urls (run leak_run initial_world) =
     [(''blob:http://localhost:5173/1b9d6bcd'', door_photo),
      (''blob:http://localhost:5173/0002'', room_photo),
      (''blob:http://localhost:5173/0003'', room_photo),
      (''blob:http://localhost:5173/0004'', room_photo),
      (''blob:http://localhost:5173/0005'', room_photo)] \<and>
   revoked (run leak_run initial_world) =
     [''blob:http://localhost:5173/0002'', ''blob:http://localhost:5173/0003''] \<and>
   revoked (unmount (run leak_run initial_world)) =
     [''blob:http://localhost:5173/0002'', ''blob:http://localhost:5173/0003'',
      ''blob:http://localhost:5173/0005'', ''blob:http://localhost:5173/1b9d6bcd''] \<and>
   (''blob:http://localhost:5173/0004'', room_photo) \<in>
     set (object_urls (unmount (run leak_run initial_world))) \<and>
   ''blob:http://localhost:5173/0004'' \<notin> set (revoked (unmount (run leak_run initial_world)))"
  using leak_run_facts by (simp add: leak_run_def)

subsection \<open>Reset\<close>

text \<open>
  C10: \<open>handleReset\<close> sets \<open>selectedDoor\<close>, \<open>doorImageFile\<close>, \<open>sceneImage\<close>, \<open>error\<close>,
  \<open>persistedOrbPosition\<close>, \<open>debugImageUrl\<close> and \<open>debugPrompt\<close> to \<open>null\<close> and \<open>isLoading\<close>
  to \<open>false\<close>, which are the values these hooks start with, and \<open>renderContent\<close> then
  returns the door selection (the selector over the predefined doors).
\<close>

theorem handleReset_restores:
  "selectedDoor (handleReset s) = None \<and> doorImageFile (handleReset s) = None \<and>
   sceneImage (handleReset s) = None \<and> error (handleReset s) = None \<and>
   persistedOrbPosition (handleReset s) = None \<and> debugImageUrl (handleReset s) = None \<and>
   debugPrompt (handleReset s) = None \<and> isLoading (handleReset s) = False \<and>
   selectedDoor (handleReset s) = selectedDoor initial_state \<and>
   doorImageFile (handleReset s) = doorImageFile initial_state \<and>
   sceneImage (handleReset s) = sceneImage initial_state \<and>
   error (handleReset s) = error initial_state \<and>
   persistedOrbPosition (handleReset s) = persistedOrbPosition initial_state \<and>
   debugImageUrl (handleReset s) = debugImageUrl initial_state \<and>
   debugPrompt (handleReset s) = debugPrompt initial_state \<and>
   isLoading (handleReset s) = isLoading initial_state \<and>
   renderContent (handleReset s) = DoorSelectionView predefinedDoors (isAddModalOpen s)"
  by (simp add: handleReset_def initial_state_def renderContent_def)

end
